theory Spec2Isabelle
  imports Complex_Main
begin

section \<open>Values\<close>

text \<open>
  Go's \<^verbatim>\<open>uint\<close> is modelled by \<open>nat\<close> and \<^verbatim>\<open>int\<close> by \<open>int\<close>: the import
  engine only copies and compares identifiers and counts, it never computes with them
  near the 64-bit bounds. A \<^verbatim>\<open>float64\<close> is only copied and compared with zero;
  it is modelled by \<open>real\<close>. A Go \<^verbatim>\<open>error\<close> is modelled by its message, and a
  function returning \<^verbatim>\<open>(T, error)\<close> by a value of \<open>error + T\<close>; a function
  returning only \<^verbatim>\<open>error\<close> returns \<open>error option\<close>, with \<open>None\<close> for nil.
\<close>

type_synonym error = string

text \<open>\<^verbatim>\<open>fmt.Sprintf("%d", n)\<close> for an unsigned \<open>n\<close>: the decimal digits of \<open>n\<close>.\<close>

definition digit :: "nat \<Rightarrow> char" where
  "digit d = ''0123456789'' ! d"

fun decimal :: "nat \<Rightarrow> string" where
  "decimal n = (if n < 10 then [digit n] else decimal (n div 10) @ [digit (n mod 10)])"

declare decimal.simps [simp del]

section \<open>The provider's records (external\_api\_dto.go)\<close>

text \<open>Only the fields the import engine reads are kept.\<close>

record ExternalImovel =
  xi_ID :: nat
  xi_Codigo :: string

record ExternalEndereco =
  xen_Rua :: string
  xen_Numero :: int
  xen_Bairro :: string
  xen_Cidade :: string
  xen_Estado :: string
  xen_CEP :: string
  xen_Latitude :: real
  xen_Longitude :: real

record ExternalOrganizacao =
  xorg_Nome :: string
  xorg_Perfil :: string

record ExternalCorretor =
  xcor_ID :: nat
  xcor_Nome :: string
  xcor_Email :: string
  xcor_Whatsapp :: string
  xcor_Idiomas :: "string list"
  xcor_BairrosAtuacao :: "string list"
  xcor_Organizacao :: ExternalOrganizacao

record ExternalPrecoVenda =
  xpv_ID :: nat
  xpv_Preco :: real
  xpv_AceitaFinanciamentoBancario :: bool
  xpv_AceitaFinanciamentoDireto :: bool
  xpv_AceitaPermuta :: bool
  xpv_AceitaCartaDeCredito :: bool
  xpv_AceitaFGTS :: bool
  xpv_Ativo :: bool

record ExternalPrecoAluguel =
  xpa_ID :: nat
  xpa_Preco :: real
  xpa_AceitaFiador :: bool
  xpa_Ativo :: bool

record ExternalEmpreendimento =
  xemp_ID :: nat
  xemp_Titulo :: string
  xemp_Descricao :: string
  xemp_Finalidade :: string
  xemp_Tipo :: string
  xemp_Status :: string
  xemp_Localizacao :: string

record ExternalDetailedImovel =
  ext_ID :: nat
  ext_Codigo :: string
  ext_Titulo :: string
  ext_Descricao :: string
  ext_Tipo :: string
  ext_Objetivo :: string
  ext_Finalidade :: string
  ext_Metragem :: real
  ext_NumQuartos :: int
  ext_NumSuites :: int
  ext_NumBanheiros :: int
  ext_NumVagas :: int
  ext_NumAndar :: int
  ext_Unidade :: string
  ext_Condominio :: real
  ext_Imagens :: "string list"
  ext_Endereco :: ExternalEndereco
  ext_CorretorPrincipal :: ExternalCorretor
  ext_PrecoVenda :: "ExternalPrecoVenda option"
  ext_PrecoAluguel :: "ExternalPrecoAluguel option"
  ext_Empreendimento :: "ExternalEmpreendimento option"

section \<open>The local schema (the model structs)\<close>

text \<open>
  The Go struct \<^verbatim>\<open>Imovel\<close>, as the service layer holds it. Its foreign keys are
  \<^verbatim>\<open>uint\<close> values whose zero value means "no reference". The columns no modelled
  operation writes (\<^verbatim>\<open>SeqCodigo\<close>, \<^verbatim>\<open>Visualizacoes\<close>, \<^verbatim>\<open>UpdatedAt\<close>,
  \<^verbatim>\<open>DeletedAt\<close>) and the preloaded associations are left out.
\<close>

record Imovel =
  im_ID :: nat
  im_Id_Integracao :: string
  im_Titulo :: string
  im_Codigo :: string
  im_Tipo :: string
  im_Objetivo :: string
  im_Finalidade :: string
  im_Descricao :: string
  im_Metragem :: real
  im_NumQuartos :: int
  im_NumSuites :: int
  im_NumBanheiros :: int
  im_NumVagas :: int
  im_NumAndar :: int
  im_Unidade :: string
  im_Condominio :: real
  im_IPTU :: real
  im_InscricaoIPTU :: string
  im_EnderecoID :: nat
  im_EmpreendimentoID :: nat
  im_PrecoVendaID :: nat
  im_PrecoAluguelID :: nat
  im_Status :: string
  im_Published :: bool
  im_Closed :: bool
  im_PlantaID :: nat
  im_CorretorPrincipalID :: nat
  im_PacoteID :: nat
  im_CreatedAt :: nat

text \<open>
  A row of the table \<^verbatim>\<open>imoveis\<close>. A foreign-key column is nullable: \<open>None\<close> is
  SQL NULL, \<open>Some 0\<close> is the id 0 written as a value.
\<close>

record imovel_row =
  col_ID :: nat
  col_Id_Integracao :: string
  col_Titulo :: string
  col_Codigo :: string
  col_Tipo :: string
  col_Objetivo :: string
  col_Finalidade :: string
  col_Descricao :: string
  col_Metragem :: real
  col_NumQuartos :: int
  col_NumSuites :: int
  col_NumBanheiros :: int
  col_NumVagas :: int
  col_NumAndar :: int
  col_Unidade :: string
  col_Condominio :: real
  col_IPTU :: real
  col_InscricaoIPTU :: string
  col_EnderecoID :: "nat option"
  col_EmpreendimentoID :: "nat option"
  col_PrecoVendaID :: "nat option"
  col_PrecoAluguelID :: "nat option"
  col_Status :: string
  col_Published :: bool
  col_Closed :: bool
  col_PlantaID :: "nat option"
  col_CorretorPrincipalID :: "nat option"
  col_PacoteID :: "nat option"
  col_CreatedAt :: nat

text \<open>
  The other tables are modelled by their rows; a column the code leaves out of an
  insert (\<^verbatim>\<open>Omit\<close>) is nullable.
\<close>

record Endereco =
  en_ID :: nat
  en_Rua :: string
  en_Numero :: int
  en_Bairro :: string
  en_Cidade :: string
  en_Estado :: string
  en_CEP :: string
  en_Latitude :: real
  en_Longitude :: real

record Organizacao =
  org_ID :: nat
  org_Nome :: string
  org_Perfil :: string

record CorretorPrincipal =
  cor_ID :: nat
  cor_IdIntegracao :: string
  cor_Nome :: string
  cor_Email :: string
  cor_Whatsapp :: string
  cor_FotoID :: "nat option"
  cor_Idiomas :: "string list"
  cor_BairrosAtuacao :: "string list"
  cor_OrganizacaoID :: nat

record Empreendimento =
  emp_ID :: nat
  emp_IdIntegracao :: string
  emp_Titulo :: string
  emp_Descricao :: string
  emp_DataEntrega :: "string option"
  emp_EtapaLancamento :: "string option"
  emp_Finalidade :: string
  emp_Tipo :: string
  emp_Status :: string
  emp_Localizacao :: string
  emp_EnderecoID :: "nat option"

record PrecoVenda =
  pv_ID :: nat
  pv_IdIntegracao :: string
  pv_Preco :: real
  pv_AceitaFinanciamentoBancario :: bool
  pv_AceitaFinanciamentoDireto :: bool
  pv_AceitaPermuta :: bool
  pv_AceitaCartaDeCredito :: bool
  pv_AceitaFGTS :: bool
  pv_Ativo :: bool

record PrecoAluguel =
  pa_ID :: nat
  pa_IdIntegracao :: string
  pa_Preco :: real
  pa_AceitaFiador :: bool
  pa_Ativo :: bool

record Anexo =
  anx_ID :: nat
  anx_Nome :: string
  anx_URL :: string
  anx_Tipo :: string
  anx_CanPublish :: bool
  anx_Image :: bool
  anx_Video :: bool
  anx_IsExternalURL :: bool
  anx_ImovelID :: "nat option"
  anx_EmpreendimentoID :: "nat option"
  anx_PlantaID :: "nat option"

section \<open>The database\<close>

text \<open>
  The state the Go code mutates through \<^verbatim>\<open>*gorm.DB\<close>. Each table is the list of
  its rows in insertion order, as the default-scoped queries of GORM see them, with the
  last value of its id sequence. Every call that reaches the database is one statement:
  it is appended to \<open>log\<close> with the table it is issued on, and it consumes the head of
  \<open>faults\<close>, failing when that head is \<open>True\<close> (a connection error, a constraint the
  model does not know, ...). With \<open>faults = []\<close> no statement fails for such a reason.
\<close>

datatype table =
  T_imoveis | T_enderecos | T_empreendimentos | T_precos_venda | T_precos_aluguel
  | T_corretores_principais | T_organizacoes | T_anexos

datatype stmt = Select | Insert | Update | Delete

record db =
  imoveis :: "imovel_row list"
  imoveis_seq :: nat
  enderecos :: "Endereco list"
  enderecos_seq :: nat
  empreendimentos :: "Empreendimento list"
  empreendimentos_seq :: nat
  precos_venda :: "PrecoVenda list"
  precos_venda_seq :: nat
  precos_aluguel :: "PrecoAluguel list"
  precos_aluguel_seq :: nat
  corretores_principais :: "CorretorPrincipal list"
  corretores_principais_seq :: nat
  organizacoes :: "Organizacao list"
  organizacoes_seq :: nat
  anexos :: "Anexo list"
  anexos_seq :: nat
  faults :: "bool list"
  log :: "(table \<times> stmt) list"

definition db_error :: error where
  "db_error = ''database error''"

definition ErrRecordNotFound :: error where
  "ErrRecordNotFound = ''record not found''"

definition ErrDuplicatedKey :: error where
  "ErrDuplicatedKey = ''duplicate key value violates unique constraint''"

text \<open>One statement: logged, and failing when the fault script says so.\<close>

definition exec_stmt :: "table \<Rightarrow> stmt \<Rightarrow> db \<Rightarrow> bool \<times> db" where
  "exec_stmt t k s =
     (case faults s of
        [] \<Rightarrow> (True, s\<lparr>log := log s @ [(t, k)]\<rparr>)
      | b # bs \<Rightarrow> (\<not> b, s\<lparr>faults := bs, log := log s @ [(t, k)]\<rparr>))"


section \<open>The repository layer (repository.go)\<close>

text \<open>Scanning a row into the struct: NULL becomes the zero value.\<close>

definition null_zero :: "nat option \<Rightarrow> nat" where
  "null_zero c = (case c of None \<Rightarrow> 0 | Some v \<Rightarrow> v)"

definition scan_imovel :: "imovel_row \<Rightarrow> Imovel" where
  "scan_imovel r =
     \<lparr>im_ID = col_ID r, im_Id_Integracao = col_Id_Integracao r, im_Titulo = col_Titulo r,
      im_Codigo = col_Codigo r, im_Tipo = col_Tipo r, im_Objetivo = col_Objetivo r,
      im_Finalidade = col_Finalidade r, im_Descricao = col_Descricao r,
      im_Metragem = col_Metragem r, im_NumQuartos = col_NumQuartos r,
      im_NumSuites = col_NumSuites r, im_NumBanheiros = col_NumBanheiros r,
      im_NumVagas = col_NumVagas r, im_NumAndar = col_NumAndar r,
      im_Unidade = col_Unidade r, im_Condominio = col_Condominio r, im_IPTU = col_IPTU r,
      im_InscricaoIPTU = col_InscricaoIPTU r,
      im_EnderecoID = null_zero (col_EnderecoID r),
      im_EmpreendimentoID = null_zero (col_EmpreendimentoID r),
      im_PrecoVendaID = null_zero (col_PrecoVendaID r),
      im_PrecoAluguelID = null_zero (col_PrecoAluguelID r),
      im_Status = col_Status r, im_Published = col_Published r, im_Closed = col_Closed r,
      im_PlantaID = null_zero (col_PlantaID r),
      im_CorretorPrincipalID = null_zero (col_CorretorPrincipalID r),
      im_PacoteID = null_zero (col_PacoteID r), im_CreatedAt = col_CreatedAt r\<rparr>"

text \<open>
  The row an INSERT writes for a struct: every field is written, zero values included,
  except the fields named in the \<^verbatim>\<open>Omit\<close> list, whose columns stay NULL.
\<close>

definition fk_col :: "string list \<Rightarrow> string \<Rightarrow> nat \<Rightarrow> nat option" where
  "fk_col omitFields name v = (if name \<in> set omitFields then None else Some v)"

definition insert_row :: "string list \<Rightarrow> Imovel \<Rightarrow> imovel_row" where
  "insert_row omitFields m =
     \<lparr>col_ID = im_ID m, col_Id_Integracao = im_Id_Integracao m, col_Titulo = im_Titulo m,
      col_Codigo = im_Codigo m, col_Tipo = im_Tipo m, col_Objetivo = im_Objetivo m,
      col_Finalidade = im_Finalidade m, col_Descricao = im_Descricao m,
      col_Metragem = im_Metragem m, col_NumQuartos = im_NumQuartos m,
      col_NumSuites = im_NumSuites m, col_NumBanheiros = im_NumBanheiros m,
      col_NumVagas = im_NumVagas m, col_NumAndar = im_NumAndar m,
      col_Unidade = im_Unidade m, col_Condominio = im_Condominio m, col_IPTU = im_IPTU m,
      col_InscricaoIPTU = im_InscricaoIPTU m,
      col_EnderecoID = fk_col omitFields ''EnderecoID'' (im_EnderecoID m),
      col_EmpreendimentoID = fk_col omitFields ''EmpreendimentoID'' (im_EmpreendimentoID m),
      col_PrecoVendaID = fk_col omitFields ''PrecoVendaID'' (im_PrecoVendaID m),
      col_PrecoAluguelID = fk_col omitFields ''PrecoAluguelID'' (im_PrecoAluguelID m),
      col_Status = im_Status m, col_Published = im_Published m, col_Closed = im_Closed m,
      col_PlantaID = fk_col omitFields ''PlantaID'' (im_PlantaID m),
      col_CorretorPrincipalID =
        fk_col omitFields ''CorretorPrincipalID'' (im_CorretorPrincipalID m),
      col_PacoteID = fk_col omitFields ''PacoteID'' (im_PacoteID m),
      col_CreatedAt = im_CreatedAt m\<rparr>"

text \<open>
  \<^verbatim>\<open>db.Omit(omitFields...).Create(imovel)\<close> on the table \<^verbatim>\<open>imoveis\<close>. The struct
  tags declare unique indexes on \<^verbatim>\<open>id_integracao\<close> and \<^verbatim>\<open>codigo\<close>: the insert
  fails when a row holds the same value. The id comes from the sequence, the creation
  time is the number of statements issued so far.
\<close>

definition gorm_Create_imovel :: "db \<Rightarrow> string list \<Rightarrow> Imovel \<Rightarrow> (error + nat) \<times> db" where
  "gorm_Create_imovel s omitFields imovel =
     (case exec_stmt T_imoveis Insert s of (ok, s1) \<Rightarrow>
        if \<not> ok then (Inl db_error, s1)
        else if \<exists>r \<in> set (imoveis s1).
                  col_Id_Integracao r = im_Id_Integracao imovel \<or> col_Codigo r = im_Codigo imovel
        then (Inl ErrDuplicatedKey, s1)
        else
          let newid = Suc (imoveis_seq s1);
              row = insert_row omitFields
                      (imovel\<lparr>im_ID := newid, im_CreatedAt := length (log s1)\<rparr>)
          in (Inr newid, s1\<lparr>imoveis := imoveis s1 @ [row], imoveis_seq := newid\<rparr>))"

text \<open>\<^verbatim>\<open>FindByID\<close>: nil, nil when no row has the id.\<close>

definition FindByID :: "db \<Rightarrow> nat \<Rightarrow> (error + Imovel option) \<times> db" where
  "FindByID s ident =
     (case exec_stmt T_imoveis Select s of (ok, s1) \<Rightarrow>
        if \<not> ok then (Inl db_error, s1)
        else (Inr (map_option scan_imovel (find (\<lambda>r. col_ID r = ident) (imoveis s1))), s1))"

definition FindByIdIntegracao :: "db \<Rightarrow> string \<Rightarrow> (error + Imovel option) \<times> db" where
  "FindByIdIntegracao s idIntegracao =
     (case exec_stmt T_imoveis Select s of (ok, s1) \<Rightarrow>
        if \<not> ok then (Inl db_error, s1)
        else (Inr (map_option scan_imovel
                     (find (\<lambda>r. col_Id_Integracao r = idIntegracao) (imoveis s1))), s1))"

definition ExistsByCodigo :: "db \<Rightarrow> string \<Rightarrow> (error + bool) \<times> db" where
  "ExistsByCodigo s codigo =
     (case exec_stmt T_imoveis Select s of (ok, s1) \<Rightarrow>
        if \<not> ok then (Inl db_error, s1)
        else (Inr (\<exists>r \<in> set (imoveis s1). col_Codigo r = codigo), s1))"

definition ExistsByIdIntegracao :: "db \<Rightarrow> string \<Rightarrow> (error + bool) \<times> db" where
  "ExistsByIdIntegracao s idIntegracao =
     (case exec_stmt T_imoveis Select s of (ok, s1) \<Rightarrow>
        if \<not> ok then (Inl db_error, s1)
        else (Inr (\<exists>r \<in> set (imoveis s1). col_Id_Integracao r = idIntegracao), s1))"

text \<open>
  \<^verbatim>\<open>Model(imovel).Omit(...).Updates(imovel)\<close>: GORM's \<^verbatim>\<open>Updates\<close> with a struct
  writes the non-zero fields only, to the row whose primary key is the struct's.
\<close>

definition updates_row :: "Imovel \<Rightarrow> imovel_row \<Rightarrow> imovel_row" where
  "updates_row m r =
     \<lparr>col_ID = col_ID r,
      col_Id_Integracao = (if im_Id_Integracao m \<noteq> [] then im_Id_Integracao m else col_Id_Integracao r),
      col_Titulo = (if im_Titulo m \<noteq> [] then im_Titulo m else col_Titulo r),
      col_Codigo = (if im_Codigo m \<noteq> [] then im_Codigo m else col_Codigo r),
      col_Tipo = (if im_Tipo m \<noteq> [] then im_Tipo m else col_Tipo r),
      col_Objetivo = (if im_Objetivo m \<noteq> [] then im_Objetivo m else col_Objetivo r),
      col_Finalidade = (if im_Finalidade m \<noteq> [] then im_Finalidade m else col_Finalidade r),
      col_Descricao = (if im_Descricao m \<noteq> [] then im_Descricao m else col_Descricao r),
      col_Metragem = (if im_Metragem m \<noteq> 0 then im_Metragem m else col_Metragem r),
      col_NumQuartos = (if im_NumQuartos m \<noteq> 0 then im_NumQuartos m else col_NumQuartos r),
      col_NumSuites = (if im_NumSuites m \<noteq> 0 then im_NumSuites m else col_NumSuites r),
      col_NumBanheiros = (if im_NumBanheiros m \<noteq> 0 then im_NumBanheiros m else col_NumBanheiros r),
      col_NumVagas = (if im_NumVagas m \<noteq> 0 then im_NumVagas m else col_NumVagas r),
      col_NumAndar = (if im_NumAndar m \<noteq> 0 then im_NumAndar m else col_NumAndar r),
      col_Unidade = (if im_Unidade m \<noteq> [] then im_Unidade m else col_Unidade r),
      col_Condominio = (if im_Condominio m \<noteq> 0 then im_Condominio m else col_Condominio r),
      col_IPTU = (if im_IPTU m \<noteq> 0 then im_IPTU m else col_IPTU r),
      col_InscricaoIPTU = (if im_InscricaoIPTU m \<noteq> [] then im_InscricaoIPTU m else col_InscricaoIPTU r),
      col_EnderecoID = (if im_EnderecoID m \<noteq> 0 then Some (im_EnderecoID m) else col_EnderecoID r),
      col_EmpreendimentoID =
        (if im_EmpreendimentoID m \<noteq> 0 then Some (im_EmpreendimentoID m) else col_EmpreendimentoID r),
      col_PrecoVendaID =
        (if im_PrecoVendaID m \<noteq> 0 then Some (im_PrecoVendaID m) else col_PrecoVendaID r),
      col_PrecoAluguelID =
        (if im_PrecoAluguelID m \<noteq> 0 then Some (im_PrecoAluguelID m) else col_PrecoAluguelID r),
      col_Status = (if im_Status m \<noteq> [] then im_Status m else col_Status r),
      col_Published = (if im_Published m then True else col_Published r),
      col_Closed = (if im_Closed m then True else col_Closed r),
      col_PlantaID = (if im_PlantaID m \<noteq> 0 then Some (im_PlantaID m) else col_PlantaID r),
      col_CorretorPrincipalID =
        (if im_CorretorPrincipalID m \<noteq> 0 then Some (im_CorretorPrincipalID m)
         else col_CorretorPrincipalID r),
      col_PacoteID = (if im_PacoteID m \<noteq> 0 then Some (im_PacoteID m) else col_PacoteID r),
      col_CreatedAt = (if im_CreatedAt m \<noteq> 0 then im_CreatedAt m else col_CreatedAt r)\<rparr>"

definition repo_Update :: "db \<Rightarrow> Imovel \<Rightarrow> error option \<times> db" where
  "repo_Update s imovel =
     (case exec_stmt T_imoveis Update s of (ok, s1) \<Rightarrow>
        if \<not> ok then (Some db_error, s1)
        else (None, s1\<lparr>imoveis :=
                map (\<lambda>r. if col_ID r = im_ID imovel then updates_row imovel r else r)
                  (imoveis s1)\<rparr>))"

text \<open>\<^verbatim>\<open>UpdateEndereco\<close>: a single-column update writes the value as it is.\<close>

definition UpdateEndereco :: "db \<Rightarrow> nat \<Rightarrow> nat \<Rightarrow> error option \<times> db" where
  "UpdateEndereco s imovelID enderecoID =
     (case exec_stmt T_imoveis Update s of (ok, s1) \<Rightarrow>
        if \<not> ok then (Some db_error, s1)
        else (None, s1\<lparr>imoveis :=
                map (\<lambda>r. if col_ID r = imovelID then r\<lparr>col_EnderecoID := Some enderecoID\<rparr> else r)
                  (imoveis s1)\<rparr>))"

text \<open>\<^verbatim>\<open>repository.CreateEndereco\<close>; the created id is written back into the struct.\<close>

definition repo_CreateEndereco :: "db \<Rightarrow> Endereco \<Rightarrow> (error + Endereco) \<times> db" where
  "repo_CreateEndereco s endereco =
     (case exec_stmt T_enderecos Insert s of (ok, s1) \<Rightarrow>
        if \<not> ok then (Inl db_error, s1)
        else
          let created = endereco\<lparr>en_ID := Suc (enderecos_seq s1)\<rparr>
          in (Inr created, s1\<lparr>enderecos := enderecos s1 @ [created],
                               enderecos_seq := Suc (enderecos_seq s1)\<rparr>))"

text \<open>\<^verbatim>\<open>repository.AddAnexo\<close>: the owner is set, the nil foreign keys are omitted.\<close>

definition repo_AddAnexo :: "db \<Rightarrow> nat \<Rightarrow> Anexo \<Rightarrow> error option \<times> db" where
  "repo_AddAnexo s imovelID anexo0 =
     (let anexo = anexo0\<lparr>anx_ImovelID := Some imovelID\<rparr>;
          omitFields = (if anx_EmpreendimentoID anexo = None then [''EmpreendimentoID''] else [])
                     @ (if anx_PlantaID anexo = None then [''PlantaID''] else [])
      in case exec_stmt T_anexos Insert s of (ok, s1) \<Rightarrow>
           if \<not> ok then (Some db_error, s1)
           else
             let row = anexo\<lparr>anx_ID := Suc (anexos_seq s1),
                       anx_EmpreendimentoID :=
                         (if ''EmpreendimentoID'' \<in> set omitFields then None
                          else anx_EmpreendimentoID anexo),
                       anx_PlantaID :=
                         (if ''PlantaID'' \<in> set omitFields then None else anx_PlantaID anexo)\<rparr>
             in (None, s1\<lparr>anexos := anexos s1 @ [row], anexos_seq := Suc (anexos_seq s1)\<rparr>))"


section \<open>The service layer (service.go, dto.go)\<close>

record CreateImovelRequest =
  cr_IdIntegracao :: string
  cr_Titulo :: string
  cr_Codigo :: string
  cr_Tipo :: string
  cr_Objetivo :: string
  cr_Finalidade :: string
  cr_Descricao :: string
  cr_Metragem :: real
  cr_NumQuartos :: int
  cr_NumSuites :: int
  cr_NumBanheiros :: int
  cr_NumVagas :: int
  cr_NumAndar :: int
  cr_Unidade :: string
  cr_Condominio :: real
  cr_IPTU :: real
  cr_InscricaoIPTU :: string
  cr_EnderecoID :: nat
  cr_EmpreendimentoID :: nat
  cr_PlantaID :: nat
  cr_CorretorPrincipalID :: nat
  cr_PacoteID :: nat
  cr_PrecoVendaID :: nat
  cr_PrecoAluguelID :: nat

text \<open>In the update request a Go pointer field is an option: \<open>None\<close> is nil.\<close>

record UpdateImovelRequest =
  ur_Titulo :: string
  ur_Codigo :: string
  ur_Tipo :: string
  ur_Objetivo :: string
  ur_Finalidade :: string
  ur_Descricao :: string
  ur_Metragem :: "real option"
  ur_NumQuartos :: "int option"
  ur_NumSuites :: "int option"
  ur_NumBanheiros :: "int option"
  ur_NumVagas :: "int option"
  ur_NumAndar :: "int option"
  ur_Unidade :: string
  ur_Condominio :: "real option"
  ur_IPTU :: "real option"
  ur_InscricaoIPTU :: string
  ur_EnderecoID :: "nat option"
  ur_EmpreendimentoID :: "nat option"
  ur_PlantaID :: "nat option"
  ur_CorretorPrincipalID :: "nat option"
  ur_PacoteID :: "nat option"
  ur_PrecoVendaID :: "nat option"
  ur_PrecoAluguelID :: "nat option"
  ur_Status :: string
  ur_Published :: "bool option"
  ur_Closed :: "bool option"

text \<open>
  \<^verbatim>\<open>ImovelResponse\<close> copies the scalar fields of the struct it is mapped from
  (\<^verbatim>\<open>mapToResponse\<close>); the model keeps the struct itself.
\<close>

type_synonym ImovelResponse = Imovel

definition mapToResponse :: "Imovel \<Rightarrow> ImovelResponse" where
  "mapToResponse imovel = imovel"

definition quoted :: "string \<Rightarrow> string" where
  "quoted x = [CHR 0x27] @ x @ [CHR 0x27]"

definition GetImovel :: "db \<Rightarrow> nat \<Rightarrow> (error + ImovelResponse) \<times> db" where
  "GetImovel s ident =
     (if ident = 0 then (Inl ''invalid property ID'', s)
      else case FindByID s ident of
             (Inl e, s1) \<Rightarrow> (Inl (''failed to retrieve property: '' @ e), s1)
           | (Inr None, s1) \<Rightarrow> (Inl ''property not found'', s1)
           | (Inr (Some imovel), s1) \<Rightarrow> (Inr (mapToResponse imovel), s1))"

definition GetImovelByIdIntegracao :: "db \<Rightarrow> string \<Rightarrow> (error + ImovelResponse) \<times> db" where
  "GetImovelByIdIntegracao s idIntegracao =
     (if idIntegracao = [] then (Inl ''idIntegracao cannot be empty'', s)
      else case FindByIdIntegracao s idIntegracao of
             (Inl e, s1) \<Rightarrow> (Inl (''failed to retrieve property: '' @ e), s1)
           | (Inr None, s1) \<Rightarrow>
               (Inl (''property with idIntegracao '' @ quoted idIntegracao @ '' not found''), s1)
           | (Inr (Some imovel), s1) \<Rightarrow> (Inr (mapToResponse imovel), s1))"

text \<open>\<^verbatim>\<open>CreateImovel\<close>, lines 101 to 138: the struct built from the request.\<close>

definition imovel_of_request :: "CreateImovelRequest \<Rightarrow> Imovel" where
  "imovel_of_request req =
     (let imovel =
        \<lparr>im_ID = 0, im_Id_Integracao = cr_IdIntegracao req, im_Titulo = cr_Titulo req,
         im_Codigo = cr_Codigo req, im_Tipo = cr_Tipo req, im_Objetivo = cr_Objetivo req,
         im_Finalidade = cr_Finalidade req, im_Descricao = cr_Descricao req,
         im_Metragem = cr_Metragem req, im_NumQuartos = cr_NumQuartos req,
         im_NumSuites = cr_NumSuites req, im_NumBanheiros = cr_NumBanheiros req,
         im_NumVagas = cr_NumVagas req, im_NumAndar = cr_NumAndar req,
         im_Unidade = cr_Unidade req, im_Condominio = cr_Condominio req,
         im_IPTU = cr_IPTU req, im_InscricaoIPTU = cr_InscricaoIPTU req,
         im_EnderecoID = cr_EnderecoID req, im_EmpreendimentoID = 0, im_PrecoVendaID = 0,
         im_PrecoAluguelID = 0, im_Status = ''EM_EDICAO'', im_Published = False,
         im_Closed = False, im_PlantaID = cr_PlantaID req,
         im_CorretorPrincipalID = cr_CorretorPrincipalID req, im_PacoteID = cr_PacoteID req,
         im_CreatedAt = 0\<rparr>;
        imovel = (if cr_EmpreendimentoID req \<noteq> 0
                  then imovel\<lparr>im_EmpreendimentoID := cr_EmpreendimentoID req\<rparr> else imovel);
        imovel = (if cr_PrecoVendaID req \<noteq> 0
                  then imovel\<lparr>im_PrecoVendaID := cr_PrecoVendaID req\<rparr> else imovel);
        imovel = (if cr_PrecoAluguelID req \<noteq> 0
                  then imovel\<lparr>im_PrecoAluguelID := cr_PrecoAluguelID req\<rparr> else imovel)
      in imovel)"

text \<open>Lines 140 to 159: the fields to omit, by the zero values of the request.\<close>

definition omit_fields :: "CreateImovelRequest \<Rightarrow> string list" where
  "omit_fields req =
       (if cr_EmpreendimentoID req = 0 then [''EmpreendimentoID''] else [])
     @ (if cr_PrecoVendaID req = 0 then [''PrecoVendaID''] else [])
     @ (if cr_PrecoAluguelID req = 0 then [''PrecoAluguelID''] else [])
     @ (if cr_PlantaID req = 0 then [''PlantaID''] else [])
     @ (if cr_CorretorPrincipalID req = 0 then [''CorretorPrincipalID''] else [])
     @ (if cr_PacoteID req = 0 then [''PacoteID''] else [])"

definition CreateImovel :: "db \<Rightarrow> CreateImovelRequest \<Rightarrow> (error + ImovelResponse) \<times> db" where
  "CreateImovel s req =
     (if cr_Objetivo req = ''ALUGAR'' \<and> cr_PrecoAluguelID req = 0
      then (Inl ''rental properties must have a rental price'', s)
      else if cr_Objetivo req = ''VENDER'' \<and> cr_PrecoVendaID req = 0
      then (Inl ''properties for sale must have a selling price'', s)
      else case ExistsByCodigo s (cr_Codigo req) of
        (Inl e, s1) \<Rightarrow> (Inl (''failed to check codigo uniqueness: '' @ e), s1)
      | (Inr exists, s1) \<Rightarrow>
          if exists
          then (Inl (''property with codigo '' @ quoted (cr_Codigo req) @ '' already exists''), s1)
          else case (if cr_IdIntegracao req \<noteq> []
                     then ExistsByIdIntegracao s1 (cr_IdIntegracao req)
                     else (Inr False, s1)) of
            (Inl e, s2) \<Rightarrow> (Inl (''failed to check idIntegracao uniqueness: '' @ e), s2)
          | (Inr exists2, s2) \<Rightarrow>
              if exists2
              then (Inl (''property with idIntegracao '' @ quoted (cr_IdIntegracao req)
                         @ '' already exists''), s2)
              else case gorm_Create_imovel s2 (omit_fields req) (imovel_of_request req) of
                (Inl e, s3) \<Rightarrow> (Inl (''failed to create property: '' @ e), s3)
              | (Inr newid, s3) \<Rightarrow> GetImovel s3 newid)"

text \<open>\<^verbatim>\<open>UpdateImovel\<close>, lines 252 to 331: the request applied to the loaded struct.\<close>

definition apply_update :: "UpdateImovelRequest \<Rightarrow> Imovel \<Rightarrow> Imovel" where
  "apply_update req imovel =
     imovel\<lparr>
       im_Titulo := (if ur_Titulo req \<noteq> [] then ur_Titulo req else im_Titulo imovel),
       im_Tipo := (if ur_Tipo req \<noteq> [] then ur_Tipo req else im_Tipo imovel),
       im_Objetivo := (if ur_Objetivo req \<noteq> [] then ur_Objetivo req else im_Objetivo imovel),
       im_Finalidade :=
         (if ur_Finalidade req \<noteq> [] then ur_Finalidade req else im_Finalidade imovel),
       im_Descricao := (if ur_Descricao req \<noteq> [] then ur_Descricao req else im_Descricao imovel),
       im_Metragem :=
         (case ur_Metragem req of Some v \<Rightarrow> if v > 0 then v else im_Metragem imovel
          | None \<Rightarrow> im_Metragem imovel),
       im_NumQuartos :=
         (case ur_NumQuartos req of Some v \<Rightarrow> if v \<ge> 0 then v else im_NumQuartos imovel
          | None \<Rightarrow> im_NumQuartos imovel),
       im_NumSuites :=
         (case ur_NumSuites req of Some v \<Rightarrow> if v \<ge> 0 then v else im_NumSuites imovel
          | None \<Rightarrow> im_NumSuites imovel),
       im_NumBanheiros :=
         (case ur_NumBanheiros req of Some v \<Rightarrow> if v \<ge> 0 then v else im_NumBanheiros imovel
          | None \<Rightarrow> im_NumBanheiros imovel),
       im_NumVagas :=
         (case ur_NumVagas req of Some v \<Rightarrow> if v \<ge> 0 then v else im_NumVagas imovel
          | None \<Rightarrow> im_NumVagas imovel),
       im_NumAndar := (case ur_NumAndar req of Some v \<Rightarrow> v | None \<Rightarrow> im_NumAndar imovel),
       im_Unidade := (if ur_Unidade req \<noteq> [] then ur_Unidade req else im_Unidade imovel),
       im_Condominio :=
         (case ur_Condominio req of Some v \<Rightarrow> if v \<ge> 0 then v else im_Condominio imovel
          | None \<Rightarrow> im_Condominio imovel),
       im_IPTU :=
         (case ur_IPTU req of Some v \<Rightarrow> if v \<ge> 0 then v else im_IPTU imovel
          | None \<Rightarrow> im_IPTU imovel),
       im_InscricaoIPTU :=
         (if ur_InscricaoIPTU req \<noteq> [] then ur_InscricaoIPTU req else im_InscricaoIPTU imovel),
       im_EnderecoID := (case ur_EnderecoID req of Some v \<Rightarrow> v | None \<Rightarrow> im_EnderecoID imovel),
       im_EmpreendimentoID :=
         (case ur_EmpreendimentoID req of Some v \<Rightarrow> v | None \<Rightarrow> im_EmpreendimentoID imovel),
       im_PlantaID := (case ur_PlantaID req of Some v \<Rightarrow> v | None \<Rightarrow> im_PlantaID imovel),
       im_CorretorPrincipalID :=
         (case ur_CorretorPrincipalID req of Some v \<Rightarrow> v
          | None \<Rightarrow> im_CorretorPrincipalID imovel),
       im_PacoteID := (case ur_PacoteID req of Some v \<Rightarrow> v | None \<Rightarrow> im_PacoteID imovel),
       im_PrecoVendaID :=
         (case ur_PrecoVendaID req of Some v \<Rightarrow> v | None \<Rightarrow> im_PrecoVendaID imovel),
       im_PrecoAluguelID :=
         (case ur_PrecoAluguelID req of Some v \<Rightarrow> v | None \<Rightarrow> im_PrecoAluguelID imovel),
       im_Status := (if ur_Status req \<noteq> [] then ur_Status req else im_Status imovel),
       im_Published := (case ur_Published req of Some v \<Rightarrow> v | None \<Rightarrow> im_Published imovel),
       im_Closed := (case ur_Closed req of Some v \<Rightarrow> v | None \<Rightarrow> im_Closed imovel)\<rparr>"

definition UpdateImovel ::
  "db \<Rightarrow> nat \<Rightarrow> UpdateImovelRequest \<Rightarrow> (error + ImovelResponse) \<times> db" where
  "UpdateImovel s ident req =
     (if ident = 0 then (Inl ''invalid property ID'', s)
      else case FindByID s ident of
        (Inl e, s1) \<Rightarrow> (Inl (''failed to retrieve property: '' @ e), s1)
      | (Inr None, s1) \<Rightarrow> (Inl ''property not found'', s1)
      | (Inr (Some imovel0), s1) \<Rightarrow>
          (case (if ur_Codigo req \<noteq> [] \<and> ur_Codigo req \<noteq> im_Codigo imovel0
                 then (case ExistsByCodigo s1 (ur_Codigo req) of
                         (Inl e, s2) \<Rightarrow> (Inl (''failed to check codigo uniqueness: '' @ e), s2)
                       | (Inr exists, s2) \<Rightarrow>
                           if exists
                           then (Inl (''property with codigo '' @ quoted (ur_Codigo req)
                                      @ '' already exists''), s2)
                           else (Inr (imovel0\<lparr>im_Codigo := ur_Codigo req\<rparr>), s2))
                 else (Inr imovel0, s1)) of
             (Inl e, s2) \<Rightarrow> (Inl e, s2)
           | (Inr imovel1, s2) \<Rightarrow>
               (case repo_Update s2 (apply_update req imovel1) of
                  (Some e, s3) \<Rightarrow> (Inl (''failed to update property: '' @ e), s3)
                | (None, s3) \<Rightarrow> GetImovel s3 ident)))"

definition AddAnexo :: "db \<Rightarrow> nat \<Rightarrow> Anexo \<Rightarrow> error option \<times> db" where
  "AddAnexo s imovelID anexo =
     (if imovelID = 0 then (Some ''invalid property ID'', s)
      else case FindByID s imovelID of
        (Inl e, s1) \<Rightarrow> (Some (''failed to find property: '' @ e), s1)
      | (Inr None, s1) \<Rightarrow> (Some ''property not found'', s1)
      | (Inr (Some imovel), s1) \<Rightarrow>
          (case repo_AddAnexo s1 imovelID anexo of
             (Some e, s2) \<Rightarrow> (Some (''failed to add attachment: '' @ e), s2)
           | (None, s2) \<Rightarrow> (None, s2)))"

definition AttachEndereco :: "db \<Rightarrow> nat \<Rightarrow> nat \<Rightarrow> error option \<times> db" where
  "AttachEndereco s imovelID enderecoID =
     (if imovelID = 0 \<or> enderecoID = 0 then (Some ''invalid property or address ID'', s)
      else case FindByID s imovelID of
        (Inl e, s1) \<Rightarrow> (Some (''failed to find property: '' @ e), s1)
      | (Inr None, s1) \<Rightarrow> (Some ''property not found'', s1)
      | (Inr (Some imovel), s1) \<Rightarrow>
          (case UpdateEndereco s1 imovelID enderecoID of
             (Some e, s2) \<Rightarrow> (Some (''failed to attach address: '' @ e), s2)
           | (None, s2) \<Rightarrow> (None, s2)))"

definition CreateEndereco :: "db \<Rightarrow> Endereco \<Rightarrow> (error + Endereco) \<times> db" where
  "CreateEndereco s endereco = repo_CreateEndereco s endereco"


section \<open>The import engine (import\_service.go)\<close>

subsection \<open>The provider\<close>

text \<open>
  The two HTTP endpoints, as one run of the batch sees them: the published list, and
  the detail of a property by its external id. Every way a call fails (transport,
  status other than 200, unreadable or malformed body) is an \<open>Inl\<close> value.
\<close>

record provider =
  published :: "error + ExternalImovel list"
  details :: "nat \<Rightarrow> error + ExternalDetailedImovel"

definition fetchPublishedList :: "provider \<Rightarrow> error + ExternalImovel list" where
  "fetchPublishedList api = published api"

definition ImportPropertyDetails :: "provider \<Rightarrow> nat \<Rightarrow> error + ExternalDetailedImovel" where
  "ImportPropertyDetails api externalID = details api externalID"

subsection \<open>Queries the engine issues on the database handle\<close>

text \<open>\<^verbatim>\<open>db.Where(...).First(&row).Error\<close>: nil exactly when a row is found.\<close>

definition gorm_First :: "table \<Rightarrow> ('r \<Rightarrow> bool) \<Rightarrow> 'r list \<Rightarrow> db \<Rightarrow> (error + 'r) \<times> db" where
  "gorm_First t p rows s =
     (case exec_stmt t Select s of (ok, s1) \<Rightarrow>
        if \<not> ok then (Inl db_error, s1)
        else case find p rows of
               None \<Rightarrow> (Inl ErrRecordNotFound, s1)
             | Some r \<Rightarrow> (Inr r, s1))"

subsection \<open>Address\<close>

definition createEndereco :: "db \<Rightarrow> ExternalEndereco option \<Rightarrow> (error + nat) \<times> db" where
  "createEndereco s extEndereco =
     (case extEndereco of
        None \<Rightarrow> (Inl ''endereco is empty'', s)
      | Some x \<Rightarrow>
          if xen_Rua x = [] then (Inl ''endereco is empty'', s)
          else
            let endereco = \<lparr>en_ID = 0, en_Rua = xen_Rua x, en_Numero = xen_Numero x,
                             en_Bairro = xen_Bairro x, en_Cidade = xen_Cidade x,
                             en_Estado = xen_Estado x, en_CEP = xen_CEP x,
                             en_Latitude = xen_Latitude x, en_Longitude = xen_Longitude x\<rparr>
            in case CreateEndereco s endereco of
                 (Inl e, s1) \<Rightarrow> (Inl (''failed to create endereco: '' @ e), s1)
               | (Inr created, s1) \<Rightarrow> (Inr (en_ID created), s1))"

definition upsertEndereco :: "db \<Rightarrow> nat \<Rightarrow> ExternalEndereco option \<Rightarrow> error option \<times> db" where
  "upsertEndereco s imovelID extEndereco =
     (case createEndereco s extEndereco of
        (Inl e, s1) \<Rightarrow> (Some e, s1)
      | (Inr enderecoID, s1) \<Rightarrow> AttachEndereco s1 imovelID enderecoID)"

subsection \<open>Development\<close>

text \<open>The \<^verbatim>\<open>updates\<close> map of the update path, applied to a row.\<close>

definition emp_updates :: "ExternalEmpreendimento \<Rightarrow> Empreendimento \<Rightarrow> Empreendimento" where
  "emp_updates x r =
     r\<lparr>emp_Titulo := xemp_Titulo x, emp_Descricao := xemp_Descricao x,
       emp_Tipo := xemp_Tipo x, emp_Status := xemp_Status x,
       emp_Localizacao := xemp_Localizacao x,
       emp_Finalidade := (if xemp_Finalidade x \<noteq> [] then xemp_Finalidade x
                          else emp_Finalidade r)\<rparr>"

definition upsertEmpreendimento ::
  "db \<Rightarrow> ExternalEmpreendimento option \<Rightarrow> (error + nat) \<times> db" where
  "upsertEmpreendimento s ext =
     (case ext of
        None \<Rightarrow> (Inl ''empreendimento is nil'', s)
      | Some x \<Rightarrow>
          if xemp_ID x = 0 then (Inl ''empreendimento has no valid external ID'', s)
          else
            let idIntegracao = decimal (xemp_ID x) in
            case gorm_First T_empreendimentos (\<lambda>r. emp_IdIntegracao r = idIntegracao)
                   (empreendimentos s) s of
              (Inr existing, s1) \<Rightarrow>
                (case exec_stmt T_empreendimentos Update s1 of (ok, s2) \<Rightarrow>
                   if \<not> ok then (Inl (''failed to update empreendimento: '' @ db_error), s2)
                   else (Inr (emp_ID existing),
                         s2\<lparr>empreendimentos :=
                              map (\<lambda>r. if emp_ID r = emp_ID existing then emp_updates x r else r)
                                (empreendimentos s2)\<rparr>))
            | (Inl notFound, s1) \<Rightarrow>
                (let empreendimento =
                       \<lparr>emp_ID = 0, emp_IdIntegracao = idIntegracao, emp_Titulo = xemp_Titulo x,
                        emp_Descricao = xemp_Descricao x, emp_DataEntrega = None,
                        emp_EtapaLancamento = None,
                        emp_Finalidade = (if xemp_Finalidade x \<noteq> [] then xemp_Finalidade x else []),
                        emp_Tipo = xemp_Tipo x, emp_Status = xemp_Status x,
                        emp_Localizacao = xemp_Localizacao x, emp_EnderecoID = None\<rparr>
                 in case exec_stmt T_empreendimentos Insert s1 of (ok, s2) \<Rightarrow>
                      if \<not> ok then (Inl (''failed to create empreendimento: '' @ db_error), s2)
                      else if \<exists>r \<in> set (empreendimentos s2). emp_IdIntegracao r = idIntegracao
                      then (Inl (''failed to create empreendimento: '' @ ErrDuplicatedKey), s2)
                      else
                        let newid = Suc (empreendimentos_seq s2)
                        in (Inr newid,
                            s2\<lparr>empreendimentos :=
                                 empreendimentos s2 @ [empreendimento\<lparr>emp_ID := newid\<rparr>],
                               empreendimentos_seq := newid\<rparr>)))"

subsection \<open>Sale price and rent price\<close>

definition upsertPrecoVenda :: "db \<Rightarrow> ExternalPrecoVenda option \<Rightarrow> (error + nat) \<times> db" where
  "upsertPrecoVenda s ext =
     (case ext of
        None \<Rightarrow> (Inl ''preco venda is nil'', s)
      | Some x \<Rightarrow>
          if xpv_ID x = 0 then (Inl ''preco venda has no valid external ID'', s)
          else
            let idIntegracao = decimal (xpv_ID x) in
            case gorm_First T_precos_venda (\<lambda>r. pv_IdIntegracao r = idIntegracao)
                   (precos_venda s) s of
              (Inr existing0, s1) \<Rightarrow>
                (let existing =
                       existing0\<lparr>pv_Preco := xpv_Preco x,
                         pv_AceitaFinanciamentoBancario := xpv_AceitaFinanciamentoBancario x,
                         pv_AceitaFinanciamentoDireto := xpv_AceitaFinanciamentoDireto x,
                         pv_AceitaPermuta := xpv_AceitaPermuta x,
                         pv_AceitaCartaDeCredito := xpv_AceitaCartaDeCredito x,
                         pv_AceitaFGTS := xpv_AceitaFGTS x, pv_Ativo := xpv_Ativo x\<rparr>
                 in case exec_stmt T_precos_venda Update s1 of (ok, s2) \<Rightarrow>
                      if \<not> ok then (Inl (''failed to update preco venda: '' @ db_error), s2)
                      else (Inr (pv_ID existing),
                            s2\<lparr>precos_venda :=
                                 map (\<lambda>r. if pv_ID r = pv_ID existing then existing else r)
                                   (precos_venda s2)\<rparr>))
            | (Inl notFound, s1) \<Rightarrow>
                (let precoVenda =
                       \<lparr>pv_ID = 0, pv_IdIntegracao = idIntegracao, pv_Preco = xpv_Preco x,
                        pv_AceitaFinanciamentoBancario = xpv_AceitaFinanciamentoBancario x,
                        pv_AceitaFinanciamentoDireto = xpv_AceitaFinanciamentoDireto x,
                        pv_AceitaPermuta = xpv_AceitaPermuta x,
                        pv_AceitaCartaDeCredito = xpv_AceitaCartaDeCredito x,
                        pv_AceitaFGTS = xpv_AceitaFGTS x, pv_Ativo = xpv_Ativo x\<rparr>
                 in case exec_stmt T_precos_venda Insert s1 of (ok, s2) \<Rightarrow>
                      if \<not> ok then (Inl (''failed to create preco venda: '' @ db_error), s2)
                      else if \<exists>r \<in> set (precos_venda s2). pv_IdIntegracao r = idIntegracao
                      then (Inl (''failed to create preco venda: '' @ ErrDuplicatedKey), s2)
                      else
                        let newid = Suc (precos_venda_seq s2)
                        in (Inr newid,
                            s2\<lparr>precos_venda := precos_venda s2 @ [precoVenda\<lparr>pv_ID := newid\<rparr>],
                               precos_venda_seq := newid\<rparr>)))"

definition upsertPrecoAluguel :: "db \<Rightarrow> ExternalPrecoAluguel option \<Rightarrow> (error + nat) \<times> db" where
  "upsertPrecoAluguel s ext =
     (case ext of
        None \<Rightarrow> (Inl ''preco aluguel is nil'', s)
      | Some x \<Rightarrow>
          if xpa_ID x = 0 then (Inl ''preco aluguel has no valid external ID'', s)
          else
            let idIntegracao = decimal (xpa_ID x) in
            case gorm_First T_precos_aluguel (\<lambda>r. pa_IdIntegracao r = idIntegracao)
                   (precos_aluguel s) s of
              (Inr existing0, s1) \<Rightarrow>
                (let existing =
                       existing0\<lparr>pa_Preco := xpa_Preco x, pa_AceitaFiador := xpa_AceitaFiador x,
                         pa_Ativo := xpa_Ativo x\<rparr>
                 in case exec_stmt T_precos_aluguel Update s1 of (ok, s2) \<Rightarrow>
                      if \<not> ok then (Inl (''failed to update preco aluguel: '' @ db_error), s2)
                      else (Inr (pa_ID existing),
                            s2\<lparr>precos_aluguel :=
                                 map (\<lambda>r. if pa_ID r = pa_ID existing then existing else r)
                                   (precos_aluguel s2)\<rparr>))
            | (Inl notFound, s1) \<Rightarrow>
                (let precoAluguel =
                       \<lparr>pa_ID = 0, pa_IdIntegracao = idIntegracao, pa_Preco = xpa_Preco x,
                        pa_AceitaFiador = xpa_AceitaFiador x, pa_Ativo = xpa_Ativo x\<rparr>
                 in case exec_stmt T_precos_aluguel Insert s1 of (ok, s2) \<Rightarrow>
                      if \<not> ok then (Inl (''failed to create preco aluguel: '' @ db_error), s2)
                      else if \<exists>r \<in> set (precos_aluguel s2). pa_IdIntegracao r = idIntegracao
                      then (Inl (''failed to create preco aluguel: '' @ ErrDuplicatedKey), s2)
                      else
                        let newid = Suc (precos_aluguel_seq s2)
                        in (Inr newid,
                            s2\<lparr>precos_aluguel :=
                                 precos_aluguel s2 @ [precoAluguel\<lparr>pa_ID := newid\<rparr>],
                               precos_aluguel_seq := newid\<rparr>)))"


subsection \<open>Organization and broker\<close>

definition upsertOrganizacao :: "db \<Rightarrow> ExternalOrganizacao option \<Rightarrow> (error + nat) \<times> db" where
  "upsertOrganizacao s extOrg =
     (case extOrg of
        None \<Rightarrow> (Inl ''organizacao is empty'', s)
      | Some x \<Rightarrow>
          if xorg_Nome x = [] then (Inl ''organizacao is empty'', s)
          else
            case gorm_First T_organizacoes (\<lambda>r. org_Nome r = xorg_Nome x) (organizacoes s) s of
              (Inr org, s1) \<Rightarrow>
                if org_Perfil org \<noteq> xorg_Perfil x
                then
                  (case exec_stmt T_organizacoes Update s1 of (ok, s2) \<Rightarrow>
                     if \<not> ok then (Inl (''failed to update organizacao: '' @ db_error), s2)
                     else (Inr (org_ID org),
                           s2\<lparr>organizacoes :=
                                map (\<lambda>r. if org_ID r = org_ID org
                                          then org\<lparr>org_Perfil := xorg_Perfil x\<rparr> else r)
                                  (organizacoes s2)\<rparr>))
                else (Inr (org_ID org), s1)
            | (Inl notFound, s1) \<Rightarrow>
                (case exec_stmt T_organizacoes Insert s1 of (ok, s2) \<Rightarrow>
                   if \<not> ok then (Inl (''failed to create organizacao: '' @ db_error), s2)
                   else
                     let newid = Suc (organizacoes_seq s2)
                     in (Inr newid,
                         s2\<lparr>organizacoes :=
                              organizacoes s2
                              @ [\<lparr>org_ID = newid, org_Nome = xorg_Nome x, org_Perfil = xorg_Perfil x\<rparr>],
                            organizacoes_seq := newid\<rparr>)))"

text \<open>Lines 604 to 629: the found broker, changed field by field, saved when changed.\<close>

definition corretor_changes ::
  "ExternalCorretor \<Rightarrow> nat \<Rightarrow> CorretorPrincipal \<Rightarrow> CorretorPrincipal \<times> bool" where
  "corretor_changes x organizacaoID c0 =
     (let (c1, u1) = (if cor_Nome c0 \<noteq> xcor_Nome x
                      then (c0\<lparr>cor_Nome := xcor_Nome x\<rparr>, True) else (c0, False));
          (c2, u2) = (if cor_Email c1 \<noteq> xcor_Email x
                      then (c1\<lparr>cor_Email := xcor_Email x\<rparr>, True) else (c1, u1));
          (c3, u3) = (if cor_Whatsapp c2 \<noteq> xcor_Whatsapp x
                      then (c2\<lparr>cor_Whatsapp := xcor_Whatsapp x\<rparr>, True) else (c2, u2));
          (c4, u4) = (if organizacaoID \<noteq> 0 \<and> cor_OrganizacaoID c3 \<noteq> organizacaoID
                      then (c3\<lparr>cor_OrganizacaoID := organizacaoID\<rparr>, True) else (c3, u3))
      in (c4, u4))"

text \<open>Lines 587 to 595: the organization of the broker is resolved first.\<close>

definition corretor_organizacao :: "db \<Rightarrow> ExternalCorretor \<Rightarrow> (error + nat) \<times> db" where
  "corretor_organizacao s x =
     (if xorg_Nome (xcor_Organizacao x) \<noteq> []
      then (case upsertOrganizacao s (Some (xcor_Organizacao x)) of
              (Inl e, s0) \<Rightarrow> (Inl (''failed to upsert organizacao: '' @ e), s0)
            | (Inr orgID, s0) \<Rightarrow> (Inr orgID, s0))
      else (Inr 0, s))"

text \<open>Lines 597 to 647: the broker row is looked up by its external id.\<close>

definition corretor_row :: "db \<Rightarrow> ExternalCorretor \<Rightarrow> nat \<Rightarrow> (error + nat) \<times> db" where
  "corretor_row s0 x organizacaoID =
     (let idIntegracao = decimal (xcor_ID x) in
      case gorm_First T_corretores_principais (\<lambda>r. cor_IdIntegracao r = idIntegracao)
             (corretores_principais s0) s0 of
        (Inr found, s1) \<Rightarrow>
          (case corretor_changes x organizacaoID found of (corretor, updated) \<Rightarrow>
             if updated
             then
               (case exec_stmt T_corretores_principais Update s1 of (ok, s2) \<Rightarrow>
                  if \<not> ok
                  then (Inl (''failed to update corretor principal: '' @ db_error), s2)
                  else (Inr (cor_ID corretor),
                        s2\<lparr>corretores_principais :=
                             map (\<lambda>r. if cor_ID r = cor_ID corretor then corretor else r)
                               (corretores_principais s2)\<rparr>))
             else (Inr (cor_ID corretor), s1))
      | (Inl notFound, s1) \<Rightarrow>
          (let corretor =
                 \<lparr>cor_ID = 0, cor_IdIntegracao = idIntegracao, cor_Nome = xcor_Nome x,
                  cor_Email = xcor_Email x, cor_Whatsapp = xcor_Whatsapp x,
                  cor_FotoID = None, cor_Idiomas = xcor_Idiomas x,
                  cor_BairrosAtuacao = xcor_BairrosAtuacao x,
                  cor_OrganizacaoID = organizacaoID\<rparr>
           in case exec_stmt T_corretores_principais Insert s1 of (ok, s2) \<Rightarrow>
                if \<not> ok
                then (Inl (''failed to create corretor principal: '' @ db_error), s2)
                else if \<exists>r \<in> set (corretores_principais s2).
                          cor_IdIntegracao r = idIntegracao
                then (Inl (''failed to create corretor principal: '' @ ErrDuplicatedKey), s2)
                else
                  let newid = Suc (corretores_principais_seq s2)
                  in (Inr newid,
                      s2\<lparr>corretores_principais :=
                           corretores_principais s2 @ [corretor\<lparr>cor_ID := newid\<rparr>],
                         corretores_principais_seq := newid\<rparr>)))"

definition upsertCorretorPrincipal :: "db \<Rightarrow> ExternalCorretor option \<Rightarrow> (error + nat) \<times> db" where
  "upsertCorretorPrincipal s extCorretor =
     (case extCorretor of
        None \<Rightarrow> (Inl ''corretor principal is empty'', s)
      | Some x \<Rightarrow>
          if xcor_Email x = [] then (Inl ''corretor principal is empty'', s)
          else
            case corretor_organizacao s x of
              (Inl e, s0) \<Rightarrow> (Inl e, s0)
            | (Inr organizacaoID, s0) \<Rightarrow> corretor_row s0 x organizacaoID)"

subsection \<open>Attachments\<close>

text \<open>The attachment the engine builds for the image at index \<open>i\<close> (from 0).\<close>

definition image_anexo :: "nat \<Rightarrow> string \<Rightarrow> Anexo" where
  "image_anexo i imageURL =
     \<lparr>anx_ID = 0, anx_Nome = ''Image '' @ decimal (i + 1), anx_URL = imageURL,
      anx_Tipo = ''image'', anx_CanPublish = True, anx_Image = True, anx_Video = False,
      anx_IsExternalURL = True, anx_ImovelID = None, anx_EmpreendimentoID = None,
      anx_PlantaID = None\<rparr>"

text \<open>The loop of step 2, from index \<open>i\<close> on: it stops at the first failure.\<close>

fun addImages :: "db \<Rightarrow> nat \<Rightarrow> nat \<Rightarrow> string list \<Rightarrow> error option \<times> db" where
  "addImages s imovelID i [] = (None, s)"
| "addImages s imovelID i (imageURL # imageURLs) =
     (case AddAnexo s imovelID (image_anexo i imageURL) of
        (Some e, s1) \<Rightarrow> (Some (''failed to add image '' @ decimal (i + 1) @ '': '' @ e), s1)
      | (None, s1) \<Rightarrow> addImages s1 imovelID (Suc i) imageURLs)"

definition syncAnexosFromImages :: "db \<Rightarrow> nat \<Rightarrow> string list \<Rightarrow> error option \<times> db" where
  "syncAnexosFromImages s imovelID imageURLs =
     (case exec_stmt T_anexos Delete s of (ok, s1) \<Rightarrow>
        if \<not> ok then (Some (''failed to delete existing anexos: '' @ db_error), s1)
        else addImages
               (s1\<lparr>anexos := filter (\<lambda>a. anx_ImovelID a \<noteq> Some imovelID) (anexos s1)\<rparr>)
               imovelID 0 imageURLs)"

subsection \<open>The property reconciler\<close>

definition transformExternalToCreateRequest ::
  "ExternalDetailedImovel \<Rightarrow> nat \<Rightarrow> nat \<Rightarrow> nat \<Rightarrow> nat \<Rightarrow> nat \<Rightarrow> CreateImovelRequest" where
  "transformExternalToCreateRequest ext enderecoID empreendimentoID precoVendaID
       precoAluguelID corretorPrincipalID =
     (let descricao = (if ext_Descricao ext = [] then ext_Titulo ext @ '' - '' @ ext_Tipo ext
                       else ext_Descricao ext);
          req = \<lparr>cr_IdIntegracao = decimal (ext_ID ext), cr_Titulo = ext_Titulo ext,
                 cr_Codigo = ext_Codigo ext, cr_Tipo = ext_Tipo ext,
                 cr_Objetivo = ext_Objetivo ext, cr_Finalidade = ext_Finalidade ext,
                 cr_Descricao = descricao, cr_Metragem = ext_Metragem ext,
                 cr_NumQuartos = ext_NumQuartos ext, cr_NumSuites = ext_NumSuites ext,
                 cr_NumBanheiros = ext_NumBanheiros ext, cr_NumVagas = ext_NumVagas ext,
                 cr_NumAndar = ext_NumAndar ext, cr_Unidade = ext_Unidade ext,
                 cr_Condominio = ext_Condominio ext, cr_IPTU = 0, cr_InscricaoIPTU = [],
                 cr_EnderecoID = enderecoID, cr_EmpreendimentoID = 0, cr_PlantaID = 0,
                 cr_CorretorPrincipalID = corretorPrincipalID, cr_PacoteID = 0,
                 cr_PrecoVendaID = 0, cr_PrecoAluguelID = 0\<rparr>;
          req = (if empreendimentoID \<noteq> 0 then req\<lparr>cr_EmpreendimentoID := empreendimentoID\<rparr>
                 else req);
          req = (if precoVendaID \<noteq> 0 then req\<lparr>cr_PrecoVendaID := precoVendaID\<rparr> else req);
          req = (if precoAluguelID \<noteq> 0 then req\<lparr>cr_PrecoAluguelID := precoAluguelID\<rparr> else req)
      in req)"

text \<open>
  \<^verbatim>\<open>upsertImovelAndRelationships\<close>, lines 146 to 185: the four related entities are
  resolved first, one block each; a failure leaves the id at zero (the warning printed
  is not modelled).
\<close>

definition resolveEmpreendimento :: "db \<Rightarrow> ExternalDetailedImovel \<Rightarrow> nat \<times> db" where
  "resolveEmpreendimento s ext =
     (if ext_Empreendimento ext \<noteq> None
      then (case upsertEmpreendimento s (ext_Empreendimento ext) of
              (Inl e, s') \<Rightarrow> (0, s') | (Inr empID, s') \<Rightarrow> (empID, s'))
      else (0, s))"

definition resolvePrecoVenda :: "db \<Rightarrow> ExternalDetailedImovel \<Rightarrow> nat \<times> db" where
  "resolvePrecoVenda s ext =
     (if (case ext_PrecoVenda ext of None \<Rightarrow> False | Some pv \<Rightarrow> xpv_Ativo pv)
      then (case upsertPrecoVenda s (ext_PrecoVenda ext) of
              (Inl e, s') \<Rightarrow> (0, s') | (Inr pvID, s') \<Rightarrow> (pvID, s'))
      else (0, s))"

definition resolvePrecoAluguel :: "db \<Rightarrow> ExternalDetailedImovel \<Rightarrow> nat \<times> db" where
  "resolvePrecoAluguel s ext =
     (if (case ext_PrecoAluguel ext of None \<Rightarrow> False | Some pa \<Rightarrow> xpa_Ativo pa)
      then (case upsertPrecoAluguel s (ext_PrecoAluguel ext) of
              (Inl e, s') \<Rightarrow> (0, s') | (Inr paID, s') \<Rightarrow> (paID, s'))
      else (0, s))"

definition resolveCorretorPrincipal :: "db \<Rightarrow> ExternalDetailedImovel \<Rightarrow> nat \<times> db" where
  "resolveCorretorPrincipal s ext =
     (if xcor_Email (ext_CorretorPrincipal ext) \<noteq> []
      then (case upsertCorretorPrincipal s (Some (ext_CorretorPrincipal ext)) of
              (Inl e, s') \<Rightarrow> (0, s') | (Inr cpID, s') \<Rightarrow> (cpID, s'))
      else (0, s))"

text \<open>
  The four blocks in the order of the source. The result is the four local ids, in the
  order Development, SalePrice, RentPrice, Broker.
\<close>

definition upsertRelationships ::
  "db \<Rightarrow> ExternalDetailedImovel \<Rightarrow> (nat \<times> nat \<times> nat \<times> nat) \<times> db" where
  "upsertRelationships s ext =
     (let (empreendimentoID, s1) = resolveEmpreendimento s ext;
          (precoVendaID, s2) = resolvePrecoVenda s1 ext;
          (precoAluguelID, s3) = resolvePrecoAluguel s2 ext;
          (corretorPrincipalID, s4) = resolveCorretorPrincipal s3 ext
      in ((empreendimentoID, precoVendaID, precoAluguelID, corretorPrincipalID), s4))"

text \<open>Lines 189 to 217: the update request of the update branch.\<close>

definition update_request ::
  "ExternalDetailedImovel \<Rightarrow> nat \<Rightarrow> nat \<Rightarrow> nat \<Rightarrow> nat \<Rightarrow> UpdateImovelRequest" where
  "update_request ext empreendimentoID precoVendaID precoAluguelID corretorPrincipalID =
     \<lparr>ur_Titulo = ext_Titulo ext, ur_Codigo = [], ur_Tipo = ext_Tipo ext,
      ur_Objetivo = ext_Objetivo ext, ur_Finalidade = ext_Finalidade ext,
      ur_Descricao = ext_Descricao ext, ur_Metragem = Some (ext_Metragem ext),
      ur_NumQuartos = Some (ext_NumQuartos ext), ur_NumSuites = Some (ext_NumSuites ext),
      ur_NumBanheiros = Some (ext_NumBanheiros ext), ur_NumVagas = Some (ext_NumVagas ext),
      ur_NumAndar = Some (ext_NumAndar ext), ur_Unidade = ext_Unidade ext,
      ur_Condominio = Some (ext_Condominio ext), ur_IPTU = None, ur_InscricaoIPTU = [],
      ur_EnderecoID = None,
      ur_EmpreendimentoID = (if empreendimentoID \<noteq> 0 then Some empreendimentoID else None),
      ur_PlantaID = None,
      ur_CorretorPrincipalID =
        (if corretorPrincipalID \<noteq> 0 then Some corretorPrincipalID else None),
      ur_PacoteID = None,
      ur_PrecoVendaID = (if precoVendaID \<noteq> 0 then Some precoVendaID else None),
      ur_PrecoAluguelID = (if precoAluguelID \<noteq> 0 then Some precoAluguelID else None),
      ur_Status = [], ur_Published = None, ur_Closed = None\<rparr>"

text \<open>
  Lines 187 to 229, the update branch, and lines 230 to 247, the create branch: each
  gives the response and the local property id, or the error the function returns.
\<close>

definition update_branch ::
  "db \<Rightarrow> nat \<Rightarrow> ExternalDetailedImovel \<Rightarrow> nat \<times> nat \<times> nat \<times> nat \<Rightarrow>
     (error + ImovelResponse \<times> nat) \<times> db" where
  "update_branch s4 imovelID ext ids =
     (case ids of (empreendimentoID, precoVendaID, precoAluguelID, corretorPrincipalID) \<Rightarrow>
        (case UpdateImovel s4 imovelID
                (update_request ext empreendimentoID precoVendaID precoAluguelID
                   corretorPrincipalID) of
           (Inl e, s5) \<Rightarrow> (Inl (''failed to update property: '' @ e), s5)
         | (Inr imovelResp, s5) \<Rightarrow>
             (if xen_Rua (ext_Endereco ext) \<noteq> []
              then (Inr (imovelResp, imovelID),
                    snd (upsertEndereco s5 imovelID (Some (ext_Endereco ext))))
              else (Inr (imovelResp, imovelID), s5))))"

definition create_branch ::
  "db \<Rightarrow> ExternalDetailedImovel \<Rightarrow> nat \<times> nat \<times> nat \<times> nat \<Rightarrow>
     (error + ImovelResponse \<times> nat) \<times> db" where
  "create_branch s4 ext ids =
     (case ids of (empreendimentoID, precoVendaID, precoAluguelID, corretorPrincipalID) \<Rightarrow>
        (case (if xen_Rua (ext_Endereco ext) \<noteq> []
               then (case createEndereco s4 (Some (ext_Endereco ext)) of
                       (Inl e, s5) \<Rightarrow> (Inl (''failed to create endereco: '' @ e), s5)
                     | (Inr enderecoID, s5) \<Rightarrow> (Inr enderecoID, s5))
               else (Inr 0, s4)) of
           (Inl e, s5) \<Rightarrow> (Inl e, s5)
         | (Inr enderecoID, s5) \<Rightarrow>
             (case CreateImovel s5
                     (transformExternalToCreateRequest ext enderecoID empreendimentoID
                        precoVendaID precoAluguelID corretorPrincipalID) of
                (Inl e, s6) \<Rightarrow> (Inl (''failed to create property: '' @ e), s6)
              | (Inr imovelResp, s6) \<Rightarrow> (Inr (imovelResp, im_ID imovelResp), s6))))"

definition upsertImovelAndRelationships ::
  "db \<Rightarrow> nat \<Rightarrow> ExternalDetailedImovel \<Rightarrow> bool \<Rightarrow> (error + ImovelResponse) \<times> db" where
  "upsertImovelAndRelationships s imovelID0 ext isUpdate =
     (case upsertRelationships s ext of (ids, s4) \<Rightarrow>
        (case (if isUpdate then update_branch s4 imovelID0 ext ids
               else create_branch s4 ext ids) of
           (Inl e, s7) \<Rightarrow> (Inl e, s7)
         | (Inr (imovelResp, imovelID), s7) \<Rightarrow>
             (Inr imovelResp, snd (syncAnexosFromImages s7 imovelID (ext_Imagens ext)))))"

subsection \<open>The batch driver\<close>

text \<open>
  The body of the loop of \<^verbatim>\<open>ImportPublishedProperties\<close> (lines 63 to 96), on the
  database and the three counters \<^verbatim>\<open>successCount\<close>, \<^verbatim>\<open>errorCount\<close>,
  \<^verbatim>\<open>updateCount\<close>.
\<close>

type_synonym counters = "nat \<times> nat \<times> nat"

definition import_one ::
  "provider \<Rightarrow> ExternalImovel \<Rightarrow> db \<times> counters \<Rightarrow> db \<times> counters" where
  "import_one api extImovel st =
     (case st of (s, successCount, errorCount, updateCount) \<Rightarrow>
        (case ImportPropertyDetails api (xi_ID extImovel) of
           Inl e \<Rightarrow> (s, successCount, errorCount + 1, updateCount)
         | Inr detailedImovel \<Rightarrow>
             let idIntegracao = decimal (ext_ID detailedImovel) in
             (case GetImovelByIdIntegracao s idIntegracao of
                (Inr existingImovel, s1) \<Rightarrow>
                  (case upsertImovelAndRelationships s1 (im_ID existingImovel) detailedImovel True of
                     (Inl e, s2) \<Rightarrow> (s2, successCount, errorCount + 1, updateCount)
                   | (Inr r, s2) \<Rightarrow> (s2, successCount, errorCount, updateCount + 1))
              | (Inl notFound, s1) \<Rightarrow>
                  (case upsertImovelAndRelationships s1 0 detailedImovel False of
                     (Inl e, s2) \<Rightarrow> (s2, successCount, errorCount + 1, updateCount)
                   | (Inr imovelResp, s2) \<Rightarrow> (s2, successCount + 1, errorCount, updateCount)))))"

fun import_loop :: "provider \<Rightarrow> ExternalImovel list \<Rightarrow> db \<times> counters \<Rightarrow> db \<times> counters" where
  "import_loop api [] st = st"
| "import_loop api (extImovel # properties) st =
     import_loop api properties (import_one api extImovel st)"

definition completion_message :: "counters \<Rightarrow> error" where
  "completion_message c =
     (case c of (successCount, errorCount, updateCount) \<Rightarrow>
        ''import completed: '' @ decimal successCount @ '' created, '' @ decimal updateCount
        @ '' updated, '' @ decimal errorCount @ '' failed'')"

definition ImportPublishedProperties :: "provider \<Rightarrow> db \<Rightarrow> error option \<times> db" where
  "ImportPublishedProperties api s =
     (case fetchPublishedList api of
        Inl e \<Rightarrow> (Some (''failed to fetch published properties: '' @ e), s)
      | Inr properties \<Rightarrow>
          if length properties = 0 then (Some ''no properties found in external API'', s)
          else
            (case import_loop api properties (s, 0, 0, 0) of
               (s', c) \<Rightarrow> (Some (completion_message c), s')))"

section \<open>Notions used to state the properties\<close>

text \<open>
  \<open>view W s\<close> is the database \<open>s\<close> with the tables in \<open>W\<close>, the fault script and
  the log blanked: two states with the same view differ at most in the tables of \<open>W\<close>.
\<close>

definition view :: "table set \<Rightarrow> db \<Rightarrow> db" where
  "view W s =
     \<lparr>imoveis = (if T_imoveis \<in> W then [] else imoveis s),
      imoveis_seq = (if T_imoveis \<in> W then 0 else imoveis_seq s),
      enderecos = (if T_enderecos \<in> W then [] else enderecos s),
      enderecos_seq = (if T_enderecos \<in> W then 0 else enderecos_seq s),
      empreendimentos = (if T_empreendimentos \<in> W then [] else empreendimentos s),
      empreendimentos_seq = (if T_empreendimentos \<in> W then 0 else empreendimentos_seq s),
      precos_venda = (if T_precos_venda \<in> W then [] else precos_venda s),
      precos_venda_seq = (if T_precos_venda \<in> W then 0 else precos_venda_seq s),
      precos_aluguel = (if T_precos_aluguel \<in> W then [] else precos_aluguel s),
      precos_aluguel_seq = (if T_precos_aluguel \<in> W then 0 else precos_aluguel_seq s),
      corretores_principais =
        (if T_corretores_principais \<in> W then [] else corretores_principais s),
      corretores_principais_seq =
        (if T_corretores_principais \<in> W then 0 else corretores_principais_seq s),
      organizacoes = (if T_organizacoes \<in> W then [] else organizacoes s),
      organizacoes_seq = (if T_organizacoes \<in> W then 0 else organizacoes_seq s),
      anexos = (if T_anexos \<in> W then [] else anexos s),
      anexos_seq = (if T_anexos \<in> W then 0 else anexos_seq s),
      faults = [], log = []\<rparr>"

text \<open>
  \<open>issued s s'\<close> are the statements logged between \<open>s\<close> and a later state \<open>s'\<close>;
  \<open>logs S s s'\<close> says that \<open>s'\<close> extends the log of \<open>s\<close> by statements of \<open>S\<close> only.
\<close>

definition issued :: "db \<Rightarrow> db \<Rightarrow> (table \<times> stmt) list" where
  "issued s s' = drop (length (log s)) (log s')"

definition logs :: "(table \<times> stmt) set \<Rightarrow> db \<Rightarrow> db \<Rightarrow> bool" where
  "logs S s s' \<longleftrightarrow> take (length (log s)) (log s') = log s \<and> set (issued s s') \<subseteq> S"

text \<open>Whether the next statement succeeds, by the fault script.\<close>

definition stmt_ok :: "db \<Rightarrow> bool" where
  "stmt_ok s = (case faults s of [] \<Rightarrow> True | b # bs \<Rightarrow> \<not> b)"

section \<open>Sample data\<close>

text \<open>
  An empty database, and the property of the scenario of the specification: external id
  900, code AP900, for sale, with a development, an active sale price, a broker of the
  organization Acme, an address and two images.
\<close>

definition empty_db :: db where
  "empty_db =
     \<lparr>imoveis = [], imoveis_seq = 0, enderecos = [], enderecos_seq = 0,
      empreendimentos = [], empreendimentos_seq = 0, precos_venda = [], precos_venda_seq = 0,
      precos_aluguel = [], precos_aluguel_seq = 0, corretores_principais = [],
      corretores_principais_seq = 0, organizacoes = [], organizacoes_seq = 0,
      anexos = [], anexos_seq = 0, faults = [], log = []\<rparr>"

definition imovel_900 :: ExternalDetailedImovel where
  "imovel_900 =
     \<lparr>ext_ID = 900, ext_Codigo = ''AP900'', ext_Titulo = ''Apartamento 31'', ext_Descricao = [],
      ext_Tipo = ''APARTAMENTO'', ext_Objetivo = ''VENDER'', ext_Finalidade = ''RESIDENCIAL'',
      ext_Metragem = 75, ext_NumQuartos = 2, ext_NumSuites = 1, ext_NumBanheiros = 2,
      ext_NumVagas = 1, ext_NumAndar = 3, ext_Unidade = ''31'', ext_Condominio = 500,
      ext_Imagens = [''https://img/1.jpg'', ''https://img/2.jpg''],
      ext_Endereco =
        \<lparr>xen_Rua = ''Rua A'', xen_Numero = 10, xen_Bairro = ''Centro'', xen_Cidade = ''Sao Paulo'',
         xen_Estado = ''SP'', xen_CEP = ''01000'', xen_Latitude = 0, xen_Longitude = 0\<rparr>,
      ext_CorretorPrincipal =
        \<lparr>xcor_ID = 7, xcor_Nome = ''Ana'', xcor_Email = ''ana@acme.com'', xcor_Whatsapp = ''11'',
         xcor_Idiomas = [''pt''], xcor_BairrosAtuacao = [''Centro''],
         xcor_Organizacao = \<lparr>xorg_Nome = ''Acme'', xorg_Perfil = ''IMOBILIARIA''\<rparr>\<rparr>,
      ext_PrecoVenda =
        Some \<lparr>xpv_ID = 5, xpv_Preco = 1000, xpv_AceitaFinanciamentoBancario = True,
              xpv_AceitaFinanciamentoDireto = False, xpv_AceitaPermuta = False,
              xpv_AceitaCartaDeCredito = False, xpv_AceitaFGTS = True, xpv_Ativo = True\<rparr>,
      ext_PrecoAluguel = None,
      ext_Empreendimento =
        Some \<lparr>xemp_ID = 3, xemp_Titulo = ''Torre Sul'', xemp_Descricao = ''Residencial'',
              xemp_Finalidade = ''RESIDENCIAL'', xemp_Tipo = ''VERTICAL'', xemp_Status = ''PRONTO'',
              xemp_Localizacao = ''Centro''\<rparr>\<rparr>"

definition api_900 :: provider where
  "api_900 =
     \<lparr>published = Inr [\<lparr>xi_ID = 900, xi_Codigo = ''AP900''\<rparr>],
      details = (\<lambda>i. if i = 900 then Inr imovel_900 else Inl ''external API returned status 404'')\<rparr>"


section \<open>Basic facts: frames, faults and the log\<close>

lemma exec_stmt_eq:
  "exec_stmt t k s = (stmt_ok s, s\<lparr>faults := tl (faults s), log := log s @ [(t, k)]\<rparr>)"
  by (simp add: exec_stmt_def stmt_ok_def split: list.splits)

lemma stmt_ok_nofault [simp]: "faults s = [] \<Longrightarrow> stmt_ok s"
  by (simp add: stmt_ok_def)

lemma view_upd [simp]:
  "view W (s\<lparr>log := l\<rparr>) = view W s"
  "view W (s\<lparr>faults := f\<rparr>) = view W s"
  "T_imoveis \<in> W \<Longrightarrow> view W (s\<lparr>imoveis := a\<rparr>) = view W s"
  "T_imoveis \<in> W \<Longrightarrow> view W (s\<lparr>imoveis_seq := n\<rparr>) = view W s"
  "T_enderecos \<in> W \<Longrightarrow> view W (s\<lparr>enderecos := b\<rparr>) = view W s"
  "T_enderecos \<in> W \<Longrightarrow> view W (s\<lparr>enderecos_seq := n\<rparr>) = view W s"
  "T_empreendimentos \<in> W \<Longrightarrow> view W (s\<lparr>empreendimentos := c\<rparr>) = view W s"
  "T_empreendimentos \<in> W \<Longrightarrow> view W (s\<lparr>empreendimentos_seq := n\<rparr>) = view W s"
  "T_precos_venda \<in> W \<Longrightarrow> view W (s\<lparr>precos_venda := d\<rparr>) = view W s"
  "T_precos_venda \<in> W \<Longrightarrow> view W (s\<lparr>precos_venda_seq := n\<rparr>) = view W s"
  "T_precos_aluguel \<in> W \<Longrightarrow> view W (s\<lparr>precos_aluguel := e\<rparr>) = view W s"
  "T_precos_aluguel \<in> W \<Longrightarrow> view W (s\<lparr>precos_aluguel_seq := n\<rparr>) = view W s"
  "T_corretores_principais \<in> W \<Longrightarrow> view W (s\<lparr>corretores_principais := f'\<rparr>) = view W s"
  "T_corretores_principais \<in> W \<Longrightarrow> view W (s\<lparr>corretores_principais_seq := n\<rparr>) = view W s"
  "T_organizacoes \<in> W \<Longrightarrow> view W (s\<lparr>organizacoes := g\<rparr>) = view W s"
  "T_organizacoes \<in> W \<Longrightarrow> view W (s\<lparr>organizacoes_seq := n\<rparr>) = view W s"
  "T_anexos \<in> W \<Longrightarrow> view W (s\<lparr>anexos := h\<rparr>) = view W s"
  "T_anexos \<in> W \<Longrightarrow> view W (s\<lparr>anexos_seq := n\<rparr>) = view W s"
  by (simp_all add: view_def)

text \<open>What equal views give for the tables outside \<open>W\<close>.\<close>

lemma view_imoveisD:
  "view W s' = view W s \<Longrightarrow> T_imoveis \<notin> W \<Longrightarrow>
     imoveis s' = imoveis s \<and> imoveis_seq s' = imoveis_seq s"
  by (auto simp: view_def dest: arg_cong [where f = imoveis] arg_cong [where f = imoveis_seq])

lemma view_precos_vendaD:
  "view W s' = view W s \<Longrightarrow> T_precos_venda \<notin> W \<Longrightarrow>
     precos_venda s' = precos_venda s \<and> precos_venda_seq s' = precos_venda_seq s"
  by (auto simp: view_def
      dest: arg_cong [where f = precos_venda] arg_cong [where f = precos_venda_seq])

lemma view_precos_aluguelD:
  "view W s' = view W s \<Longrightarrow> T_precos_aluguel \<notin> W \<Longrightarrow>
     precos_aluguel s' = precos_aluguel s \<and> precos_aluguel_seq s' = precos_aluguel_seq s"
  by (auto simp: view_def
      dest: arg_cong [where f = precos_aluguel] arg_cong [where f = precos_aluguel_seq])

lemma view_anexosD:
  "view W s' = view W s \<Longrightarrow> T_anexos \<notin> W \<Longrightarrow>
     anexos s' = anexos s \<and> anexos_seq s' = anexos_seq s"
  by (auto simp: view_def dest: arg_cong [where f = anexos] arg_cong [where f = anexos_seq])

subsection \<open>The log\<close>

lemma logs_refl [simp]: "logs S s s"
  by (simp add: logs_def issued_def)

lemma logs_append:
  "logs S s s1 \<Longrightarrow> log s' = log s1 @ evs \<Longrightarrow> set evs \<subseteq> S \<Longrightarrow> logs S s s'"
proof -
  assume a: "logs S s s1" and b: "log s' = log s1 @ evs" and c: "set evs \<subseteq> S"
  from a have p: "take (length (log s)) (log s1) = log s" and q: "set (issued s s1) \<subseteq> S"
    by (simp_all add: logs_def)
  have len: "length (log s) \<le> length (log s1)"
    using p by (metis length_take min.cobounded2 min.commute)
  have "take (length (log s)) (log s') = log s"
    using b p len by simp
  moreover have "issued s s' = issued s s1 @ evs"
    using b len by (simp add: issued_def)
  ultimately show ?thesis
    using q c by (simp add: logs_def)
qed

lemma logs_trans: "logs S s s1 \<Longrightarrow> logs S s1 s2 \<Longrightarrow> logs S s s2"
proof -
  assume a: "logs S s s1" and b: "logs S s1 s2"
  from b have "log s2 = log s1 @ issued s1 s2"
    by (metis logs_def issued_def append_take_drop_id)
  moreover from b have "set (issued s1 s2) \<subseteq> S"
    by (simp add: logs_def)
  ultimately show ?thesis
    using a by (rule logs_append [rotated])
qed

lemma logs_mono: "logs S s s' \<Longrightarrow> S \<subseteq> S' \<Longrightarrow> logs S' s s'"
  by (auto simp: logs_def)

lemma logs_log: "logs S s s' \<Longrightarrow> log s' = log s @ issued s s'"
  by (metis logs_def issued_def append_take_drop_id)

lemma logs_snoc: "logs S s0 s \<Longrightarrow> log s' = log s @ [e] \<Longrightarrow> e \<in> S \<Longrightarrow> logs S s0 s'"
  by (rule logs_append [where evs = "[e]"]) simp_all

subsection \<open>The repository layer\<close>

lemma FindByID_view [simp]: "view W (snd (FindByID s i)) = view W s"
  by (simp add: FindByID_def exec_stmt_eq)

lemma FindByID_faults [simp]: "faults s = [] \<Longrightarrow> faults (snd (FindByID s i)) = []"
  by (simp add: FindByID_def exec_stmt_eq)

lemma FindByID_logs:
  "logs S s0 s \<Longrightarrow> (T_imoveis, Select) \<in> S \<Longrightarrow> logs S s0 (snd (FindByID s i))"
  by (erule logs_snoc) (simp_all add: FindByID_def exec_stmt_eq)

lemma FindByIdIntegracao_view [simp]: "view W (snd (FindByIdIntegracao s k)) = view W s"
  by (simp add: FindByIdIntegracao_def exec_stmt_eq)

lemma FindByIdIntegracao_faults [simp]:
  "faults s = [] \<Longrightarrow> faults (snd (FindByIdIntegracao s k)) = []"
  by (simp add: FindByIdIntegracao_def exec_stmt_eq)

lemma FindByIdIntegracao_logs:
  "logs S s0 s \<Longrightarrow> (T_imoveis, Select) \<in> S \<Longrightarrow> logs S s0 (snd (FindByIdIntegracao s k))"
  by (erule logs_snoc) (simp_all add: FindByIdIntegracao_def exec_stmt_eq)

lemma ExistsByCodigo_view [simp]: "view W (snd (ExistsByCodigo s k)) = view W s"
  by (simp add: ExistsByCodigo_def exec_stmt_eq)

lemma ExistsByCodigo_faults [simp]: "faults s = [] \<Longrightarrow> faults (snd (ExistsByCodigo s k)) = []"
  by (simp add: ExistsByCodigo_def exec_stmt_eq)

lemma ExistsByCodigo_logs:
  "logs S s0 s \<Longrightarrow> (T_imoveis, Select) \<in> S \<Longrightarrow> logs S s0 (snd (ExistsByCodigo s k))"
  by (erule logs_snoc) (simp_all add: ExistsByCodigo_def exec_stmt_eq)

lemma ExistsByIdIntegracao_view [simp]: "view W (snd (ExistsByIdIntegracao s k)) = view W s"
  by (simp add: ExistsByIdIntegracao_def exec_stmt_eq)

lemma ExistsByIdIntegracao_faults [simp]:
  "faults s = [] \<Longrightarrow> faults (snd (ExistsByIdIntegracao s k)) = []"
  by (simp add: ExistsByIdIntegracao_def exec_stmt_eq)

lemma ExistsByIdIntegracao_logs:
  "logs S s0 s \<Longrightarrow> (T_imoveis, Select) \<in> S \<Longrightarrow> logs S s0 (snd (ExistsByIdIntegracao s k))"
  by (erule logs_snoc) (simp_all add: ExistsByIdIntegracao_def exec_stmt_eq)

lemma gorm_First_view [simp]: "view W (snd (gorm_First t p rows s)) = view W s"
  by (simp add: gorm_First_def exec_stmt_eq split: option.splits)

lemma gorm_First_faults [simp]: "faults s = [] \<Longrightarrow> faults (snd (gorm_First t p rows s)) = []"
  by (simp add: gorm_First_def exec_stmt_eq split: option.splits)

lemma gorm_First_logs:
  "logs S s0 s \<Longrightarrow> (t, Select) \<in> S \<Longrightarrow> logs S s0 (snd (gorm_First t p rows s))"
  by (erule logs_snoc) (simp_all add: gorm_First_def exec_stmt_eq split: option.splits)

lemma gorm_Create_imovel_view [simp]:
  "T_imoveis \<in> W \<Longrightarrow> view W (snd (gorm_Create_imovel s om m)) = view W s"
  by (simp add: gorm_Create_imovel_def exec_stmt_eq Let_def)

lemma gorm_Create_imovel_faults [simp]:
  "faults s = [] \<Longrightarrow> faults (snd (gorm_Create_imovel s om m)) = []"
  by (simp add: gorm_Create_imovel_def exec_stmt_eq Let_def)

lemma gorm_Create_imovel_logs:
  "logs S s0 s \<Longrightarrow> (T_imoveis, Insert) \<in> S \<Longrightarrow> logs S s0 (snd (gorm_Create_imovel s om m))"
  by (erule logs_snoc) (simp_all add: gorm_Create_imovel_def exec_stmt_eq Let_def)

lemma repo_Update_view [simp]:
  "T_imoveis \<in> W \<Longrightarrow> view W (snd (repo_Update s m)) = view W s"
  by (simp add: repo_Update_def exec_stmt_eq)

lemma repo_Update_faults [simp]: "faults s = [] \<Longrightarrow> faults (snd (repo_Update s m)) = []"
  by (simp add: repo_Update_def exec_stmt_eq)

lemma repo_Update_logs:
  "logs S s0 s \<Longrightarrow> (T_imoveis, Update) \<in> S \<Longrightarrow> logs S s0 (snd (repo_Update s m))"
  by (erule logs_snoc) (simp_all add: repo_Update_def exec_stmt_eq)

lemma UpdateEndereco_view [simp]:
  "T_imoveis \<in> W \<Longrightarrow> view W (snd (UpdateEndereco s i e)) = view W s"
  by (simp add: UpdateEndereco_def exec_stmt_eq)

lemma UpdateEndereco_faults [simp]:
  "faults s = [] \<Longrightarrow> faults (snd (UpdateEndereco s i e)) = []"
  by (simp add: UpdateEndereco_def exec_stmt_eq)

lemma UpdateEndereco_logs:
  "logs S s0 s \<Longrightarrow> (T_imoveis, Update) \<in> S \<Longrightarrow> logs S s0 (snd (UpdateEndereco s i e))"
  by (erule logs_snoc) (simp_all add: UpdateEndereco_def exec_stmt_eq)

lemma repo_CreateEndereco_view [simp]:
  "T_enderecos \<in> W \<Longrightarrow> view W (snd (repo_CreateEndereco s e)) = view W s"
  by (simp add: repo_CreateEndereco_def exec_stmt_eq Let_def)

lemma repo_CreateEndereco_faults [simp]:
  "faults s = [] \<Longrightarrow> faults (snd (repo_CreateEndereco s e)) = []"
  by (simp add: repo_CreateEndereco_def exec_stmt_eq Let_def)

lemma repo_CreateEndereco_logs:
  "logs S s0 s \<Longrightarrow> (T_enderecos, Insert) \<in> S \<Longrightarrow> logs S s0 (snd (repo_CreateEndereco s e))"
  by (erule logs_snoc) (simp_all add: repo_CreateEndereco_def exec_stmt_eq Let_def)

lemma repo_AddAnexo_view [simp]:
  "T_anexos \<in> W \<Longrightarrow> view W (snd (repo_AddAnexo s i a)) = view W s"
  by (simp add: repo_AddAnexo_def exec_stmt_eq Let_def)

lemma repo_AddAnexo_faults [simp]:
  "faults s = [] \<Longrightarrow> faults (snd (repo_AddAnexo s i a)) = []"
  by (simp add: repo_AddAnexo_def exec_stmt_eq Let_def)

lemma repo_AddAnexo_logs:
  "logs S s0 s \<Longrightarrow> (T_anexos, Insert) \<in> S \<Longrightarrow> logs S s0 (snd (repo_AddAnexo s i a))"
  by (erule logs_snoc) (simp_all add: repo_AddAnexo_def exec_stmt_eq Let_def)

subsection \<open>The service layer\<close>

lemma GetImovel_view [simp]: "view W (snd (GetImovel s i)) = view W s"
  by (simp add: GetImovel_def case_prod_beta split: sum.splits option.splits)

lemma GetImovel_faults [simp]: "faults s = [] \<Longrightarrow> faults (snd (GetImovel s i)) = []"
  by (simp add: GetImovel_def case_prod_beta split: sum.splits option.splits)

lemma GetImovel_logs:
  "logs S s0 s \<Longrightarrow> (T_imoveis, Select) \<in> S \<Longrightarrow> logs S s0 (snd (GetImovel s i))"
  by (simp add: GetImovel_def case_prod_beta FindByID_logs split: sum.splits option.splits)

lemma GetImovelByIdIntegracao_view [simp]:
  "view W (snd (GetImovelByIdIntegracao s k)) = view W s"
  by (simp add: GetImovelByIdIntegracao_def case_prod_beta split: sum.splits option.splits)

lemma GetImovelByIdIntegracao_faults [simp]:
  "faults s = [] \<Longrightarrow> faults (snd (GetImovelByIdIntegracao s k)) = []"
  by (simp add: GetImovelByIdIntegracao_def case_prod_beta split: sum.splits option.splits)

lemma GetImovelByIdIntegracao_logs:
  "logs S s0 s \<Longrightarrow> (T_imoveis, Select) \<in> S \<Longrightarrow> logs S s0 (snd (GetImovelByIdIntegracao s k))"
  by (simp add: GetImovelByIdIntegracao_def case_prod_beta FindByIdIntegracao_logs
      split: sum.splits option.splits)

lemma CreateImovel_view [simp]:
  "T_imoveis \<in> W \<Longrightarrow> view W (snd (CreateImovel s req)) = view W s"
  by (simp add: CreateImovel_def case_prod_beta split: sum.splits)

lemma CreateImovel_faults [simp]: "faults s = [] \<Longrightarrow> faults (snd (CreateImovel s req)) = []"
  by (simp add: CreateImovel_def case_prod_beta split: sum.splits)

lemma CreateImovel_logs:
  "logs S s0 s \<Longrightarrow> (T_imoveis, Select) \<in> S \<Longrightarrow> (T_imoveis, Insert) \<in> S \<Longrightarrow>
     logs S s0 (snd (CreateImovel s req))"
  by (simp add: CreateImovel_def case_prod_beta ExistsByCodigo_logs ExistsByIdIntegracao_logs
      gorm_Create_imovel_logs GetImovel_logs split: sum.splits)

lemma UpdateImovel_view [simp]:
  "T_imoveis \<in> W \<Longrightarrow> view W (snd (UpdateImovel s i req)) = view W s"
  by (simp add: UpdateImovel_def case_prod_beta split: sum.splits option.splits)

lemma UpdateImovel_faults [simp]: "faults s = [] \<Longrightarrow> faults (snd (UpdateImovel s i req)) = []"
  by (simp add: UpdateImovel_def case_prod_beta split: sum.splits option.splits)

lemma UpdateImovel_logs:
  "logs S s0 s \<Longrightarrow> (T_imoveis, Select) \<in> S \<Longrightarrow> (T_imoveis, Update) \<in> S \<Longrightarrow>
     logs S s0 (snd (UpdateImovel s i req))"
  by (simp add: UpdateImovel_def case_prod_beta FindByID_logs ExistsByCodigo_logs
      repo_Update_logs GetImovel_logs split: sum.splits option.splits)

lemma AddAnexo_view [simp]:
  "T_anexos \<in> W \<Longrightarrow> view W (snd (AddAnexo s i a)) = view W s"
  by (simp add: AddAnexo_def case_prod_beta split: sum.splits option.splits)

lemma AddAnexo_faults [simp]: "faults s = [] \<Longrightarrow> faults (snd (AddAnexo s i a)) = []"
  by (simp add: AddAnexo_def case_prod_beta split: sum.splits option.splits)

lemma AddAnexo_logs:
  "logs S s0 s \<Longrightarrow> (T_imoveis, Select) \<in> S \<Longrightarrow> (T_anexos, Insert) \<in> S \<Longrightarrow>
     logs S s0 (snd (AddAnexo s i a))"
  by (simp add: AddAnexo_def case_prod_beta FindByID_logs repo_AddAnexo_logs
      split: sum.splits option.splits)

lemma AttachEndereco_view [simp]:
  "T_imoveis \<in> W \<Longrightarrow> view W (snd (AttachEndereco s i e)) = view W s"
  by (simp add: AttachEndereco_def case_prod_beta split: sum.splits option.splits)

lemma AttachEndereco_faults [simp]:
  "faults s = [] \<Longrightarrow> faults (snd (AttachEndereco s i e)) = []"
  by (simp add: AttachEndereco_def case_prod_beta split: sum.splits option.splits)

lemma AttachEndereco_logs:
  "logs S s0 s \<Longrightarrow> (T_imoveis, Select) \<in> S \<Longrightarrow> (T_imoveis, Update) \<in> S \<Longrightarrow>
     logs S s0 (snd (AttachEndereco s i e))"
  by (simp add: AttachEndereco_def case_prod_beta FindByID_logs UpdateEndereco_logs
      split: sum.splits option.splits)


lemma exec_stmt_logs:
  "logs S s0 s \<Longrightarrow> (t, k) \<in> S \<Longrightarrow> logs S s0 (snd (exec_stmt t k s))"
  by (erule logs_snoc) (simp_all add: exec_stmt_eq)

lemma logs_upd [simp]:
  "logs S s0 (s\<lparr>imoveis := a\<rparr>) = logs S s0 s"
  "logs S s0 (s\<lparr>imoveis_seq := n\<rparr>) = logs S s0 s"
  "logs S s0 (s\<lparr>enderecos := b\<rparr>) = logs S s0 s"
  "logs S s0 (s\<lparr>enderecos_seq := n\<rparr>) = logs S s0 s"
  "logs S s0 (s\<lparr>empreendimentos := c\<rparr>) = logs S s0 s"
  "logs S s0 (s\<lparr>empreendimentos_seq := n\<rparr>) = logs S s0 s"
  "logs S s0 (s\<lparr>precos_venda := d\<rparr>) = logs S s0 s"
  "logs S s0 (s\<lparr>precos_venda_seq := n\<rparr>) = logs S s0 s"
  "logs S s0 (s\<lparr>precos_aluguel := e\<rparr>) = logs S s0 s"
  "logs S s0 (s\<lparr>precos_aluguel_seq := n\<rparr>) = logs S s0 s"
  "logs S s0 (s\<lparr>corretores_principais := f'\<rparr>) = logs S s0 s"
  "logs S s0 (s\<lparr>corretores_principais_seq := n\<rparr>) = logs S s0 s"
  "logs S s0 (s\<lparr>organizacoes := g\<rparr>) = logs S s0 s"
  "logs S s0 (s\<lparr>organizacoes_seq := n\<rparr>) = logs S s0 s"
  "logs S s0 (s\<lparr>anexos := h\<rparr>) = logs S s0 s"
  "logs S s0 (s\<lparr>anexos_seq := n\<rparr>) = logs S s0 s"
  by (simp_all add: logs_def issued_def)

subsection \<open>The import engine\<close>

lemma createEndereco_view [simp]:
  "T_enderecos \<in> W \<Longrightarrow> view W (snd (createEndereco s x)) = view W s"
  by (simp add: createEndereco_def CreateEndereco_def case_prod_beta Let_def
      split: sum.splits option.splits)

lemma createEndereco_faults [simp]:
  "faults s = [] \<Longrightarrow> faults (snd (createEndereco s x)) = []"
  by (simp add: createEndereco_def CreateEndereco_def case_prod_beta Let_def
      split: sum.splits option.splits)

lemma createEndereco_logs:
  "logs S s0 s \<Longrightarrow> (T_enderecos, Insert) \<in> S \<Longrightarrow> logs S s0 (snd (createEndereco s x))"
  by (simp add: createEndereco_def CreateEndereco_def case_prod_beta Let_def
      repo_CreateEndereco_logs split: sum.splits option.splits)

lemma upsertEndereco_view [simp]:
  "T_enderecos \<in> W \<Longrightarrow> T_imoveis \<in> W \<Longrightarrow> view W (snd (upsertEndereco s i x)) = view W s"
  by (simp add: upsertEndereco_def case_prod_beta split: sum.splits)

lemma upsertEndereco_faults [simp]:
  "faults s = [] \<Longrightarrow> faults (snd (upsertEndereco s i x)) = []"
  by (simp add: upsertEndereco_def case_prod_beta split: sum.splits)

lemma upsertEndereco_logs:
  "logs S s0 s \<Longrightarrow> (T_enderecos, Insert) \<in> S \<Longrightarrow> (T_imoveis, Select) \<in> S \<Longrightarrow>
     (T_imoveis, Update) \<in> S \<Longrightarrow> logs S s0 (snd (upsertEndereco s i x))"
  by (simp add: upsertEndereco_def case_prod_beta createEndereco_logs AttachEndereco_logs
      split: sum.splits)

lemma upsertEmpreendimento_view [simp]:
  "T_empreendimentos \<in> W \<Longrightarrow> view W (snd (upsertEmpreendimento s x)) = view W s"
  by (simp add: upsertEmpreendimento_def case_prod_beta Let_def exec_stmt_eq
      split: sum.splits option.splits)

lemma upsertEmpreendimento_faults [simp]:
  "faults s = [] \<Longrightarrow> faults (snd (upsertEmpreendimento s x)) = []"
  by (simp add: upsertEmpreendimento_def case_prod_beta Let_def exec_stmt_eq
      split: sum.splits option.splits)

lemma upsertEmpreendimento_logs:
  "logs S s0 s \<Longrightarrow> (\<And>k. (T_empreendimentos, k) \<in> S) \<Longrightarrow>
     logs S s0 (snd (upsertEmpreendimento s x))"
  by (simp add: upsertEmpreendimento_def case_prod_beta Let_def gorm_First_logs exec_stmt_logs
      split: sum.splits option.splits)

lemma upsertPrecoVenda_view [simp]:
  "T_precos_venda \<in> W \<Longrightarrow> view W (snd (upsertPrecoVenda s x)) = view W s"
  by (simp add: upsertPrecoVenda_def case_prod_beta Let_def exec_stmt_eq
      split: sum.splits option.splits)

lemma upsertPrecoVenda_faults [simp]:
  "faults s = [] \<Longrightarrow> faults (snd (upsertPrecoVenda s x)) = []"
  by (simp add: upsertPrecoVenda_def case_prod_beta Let_def exec_stmt_eq
      split: sum.splits option.splits)

lemma upsertPrecoVenda_logs:
  "logs S s0 s \<Longrightarrow> (\<And>k. (T_precos_venda, k) \<in> S) \<Longrightarrow>
     logs S s0 (snd (upsertPrecoVenda s x))"
  by (simp add: upsertPrecoVenda_def case_prod_beta Let_def gorm_First_logs exec_stmt_logs
      split: sum.splits option.splits)

lemma upsertPrecoAluguel_view [simp]:
  "T_precos_aluguel \<in> W \<Longrightarrow> view W (snd (upsertPrecoAluguel s x)) = view W s"
  by (simp add: upsertPrecoAluguel_def case_prod_beta Let_def exec_stmt_eq
      split: sum.splits option.splits)

lemma upsertPrecoAluguel_faults [simp]:
  "faults s = [] \<Longrightarrow> faults (snd (upsertPrecoAluguel s x)) = []"
  by (simp add: upsertPrecoAluguel_def case_prod_beta Let_def exec_stmt_eq
      split: sum.splits option.splits)

lemma upsertPrecoAluguel_logs:
  "logs S s0 s \<Longrightarrow> (\<And>k. (T_precos_aluguel, k) \<in> S) \<Longrightarrow>
     logs S s0 (snd (upsertPrecoAluguel s x))"
  by (simp add: upsertPrecoAluguel_def case_prod_beta Let_def gorm_First_logs exec_stmt_logs
      split: sum.splits option.splits)

lemma upsertOrganizacao_view [simp]:
  "T_organizacoes \<in> W \<Longrightarrow> view W (snd (upsertOrganizacao s x)) = view W s"
  by (simp add: upsertOrganizacao_def case_prod_beta Let_def exec_stmt_eq
      split: sum.splits option.splits)

lemma upsertOrganizacao_faults [simp]:
  "faults s = [] \<Longrightarrow> faults (snd (upsertOrganizacao s x)) = []"
  by (simp add: upsertOrganizacao_def case_prod_beta Let_def exec_stmt_eq
      split: sum.splits option.splits)

lemma upsertOrganizacao_logs:
  "logs S s0 s \<Longrightarrow> (\<And>k. (T_organizacoes, k) \<in> S) \<Longrightarrow>
     logs S s0 (snd (upsertOrganizacao s x))"
  by (simp add: upsertOrganizacao_def case_prod_beta Let_def gorm_First_logs exec_stmt_logs
      split: sum.splits option.splits)


lemma corretor_organizacao_view [simp]:
  "T_organizacoes \<in> W \<Longrightarrow> view W (snd (corretor_organizacao s x)) = view W s"
  by (simp add: corretor_organizacao_def case_prod_beta split: sum.splits)

lemma corretor_organizacao_faults [simp]:
  "faults s = [] \<Longrightarrow> faults (snd (corretor_organizacao s x)) = []"
  by (simp add: corretor_organizacao_def case_prod_beta split: sum.splits)

lemma corretor_organizacao_logs:
  "logs S s0 s \<Longrightarrow> (\<And>k. (T_organizacoes, k) \<in> S) \<Longrightarrow>
     logs S s0 (snd (corretor_organizacao s x))"
  by (simp add: corretor_organizacao_def case_prod_beta upsertOrganizacao_logs
      split: sum.splits)

lemma corretor_row_view [simp]:
  "T_corretores_principais \<in> W \<Longrightarrow> view W (snd (corretor_row s x oid)) = view W s"
  by (simp add: corretor_row_def case_prod_beta Let_def exec_stmt_eq split: sum.splits)

lemma corretor_row_faults [simp]:
  "faults s = [] \<Longrightarrow> faults (snd (corretor_row s x oid)) = []"
  by (simp add: corretor_row_def case_prod_beta Let_def exec_stmt_eq split: sum.splits)

lemma corretor_row_logs:
  "logs S s0 s \<Longrightarrow> (\<And>k. (T_corretores_principais, k) \<in> S) \<Longrightarrow>
     logs S s0 (snd (corretor_row s x oid))"
  by (simp add: corretor_row_def case_prod_beta Let_def gorm_First_logs exec_stmt_logs
      split: sum.splits)

lemma upsertCorretorPrincipal_view [simp]:
  "T_organizacoes \<in> W \<Longrightarrow> T_corretores_principais \<in> W \<Longrightarrow>
     view W (snd (upsertCorretorPrincipal s x)) = view W s"
  by (simp add: upsertCorretorPrincipal_def case_prod_beta split: sum.splits option.splits)

lemma upsertCorretorPrincipal_faults [simp]:
  "faults s = [] \<Longrightarrow> faults (snd (upsertCorretorPrincipal s x)) = []"
  by (simp add: upsertCorretorPrincipal_def case_prod_beta split: sum.splits option.splits)

lemma upsertCorretorPrincipal_logs:
  "logs S s0 s \<Longrightarrow> (\<And>k. (T_organizacoes, k) \<in> S) \<Longrightarrow>
     (\<And>k. (T_corretores_principais, k) \<in> S) \<Longrightarrow>
     logs S s0 (snd (upsertCorretorPrincipal s x))"
  by (simp add: upsertCorretorPrincipal_def case_prod_beta corretor_organizacao_logs
      corretor_row_logs split: sum.splits option.splits)

lemma addImages_view [simp]:
  "T_anexos \<in> W \<Longrightarrow> view W (snd (addImages s i j urls)) = view W s"
  by (induction urls arbitrary: s j) (simp_all add: case_prod_beta split: option.splits)

lemma addImages_faults [simp]:
  "faults s = [] \<Longrightarrow> faults (snd (addImages s i j urls)) = []"
  by (induction urls arbitrary: s j) (simp_all add: case_prod_beta split: option.splits)

lemma addImages_logs:
  "logs S s0 s \<Longrightarrow> (T_imoveis, Select) \<in> S \<Longrightarrow> (T_anexos, Insert) \<in> S \<Longrightarrow>
     logs S s0 (snd (addImages s i j urls))"
  by (induction urls arbitrary: s j)
    (simp_all add: case_prod_beta AddAnexo_logs split: option.splits)

lemma syncAnexosFromImages_view [simp]:
  "T_anexos \<in> W \<Longrightarrow> view W (snd (syncAnexosFromImages s i urls)) = view W s"
  by (simp add: syncAnexosFromImages_def exec_stmt_eq)

lemma syncAnexosFromImages_faults [simp]:
  "faults s = [] \<Longrightarrow> faults (snd (syncAnexosFromImages s i urls)) = []"
  by (simp add: syncAnexosFromImages_def exec_stmt_eq)

lemma syncAnexosFromImages_logs:
  "logs S s0 s \<Longrightarrow> (T_anexos, Delete) \<in> S \<Longrightarrow> (T_imoveis, Select) \<in> S \<Longrightarrow>
     (T_anexos, Insert) \<in> S \<Longrightarrow> logs S s0 (snd (syncAnexosFromImages s i urls))"
  by (simp add: syncAnexosFromImages_def case_prod_beta addImages_logs exec_stmt_logs)


subsection \<open>The reconciler and the batch driver\<close>

lemma resolveEmpreendimento_view [simp]:
  "T_empreendimentos \<in> W \<Longrightarrow> view W (snd (resolveEmpreendimento s ext)) = view W s"
  by (simp add: resolveEmpreendimento_def case_prod_beta split: sum.splits)

lemma resolveEmpreendimento_faults [simp]:
  "faults s = [] \<Longrightarrow> faults (snd (resolveEmpreendimento s ext)) = []"
  by (simp add: resolveEmpreendimento_def case_prod_beta split: sum.splits)

lemma resolveEmpreendimento_logs:
  "logs S s0 s \<Longrightarrow> (\<And>k. (T_empreendimentos, k) \<in> S) \<Longrightarrow>
     logs S s0 (snd (resolveEmpreendimento s ext))"
  by (simp add: resolveEmpreendimento_def case_prod_beta upsertEmpreendimento_logs
      split: sum.splits)

lemma resolvePrecoVenda_view [simp]:
  "T_precos_venda \<in> W \<Longrightarrow> view W (snd (resolvePrecoVenda s ext)) = view W s"
  by (simp add: resolvePrecoVenda_def case_prod_beta split: sum.splits)

lemma resolvePrecoVenda_faults [simp]:
  "faults s = [] \<Longrightarrow> faults (snd (resolvePrecoVenda s ext)) = []"
  by (simp add: resolvePrecoVenda_def case_prod_beta split: sum.splits)

lemma resolvePrecoVenda_logs:
  "logs S s0 s \<Longrightarrow> (\<And>k. (T_precos_venda, k) \<in> S) \<Longrightarrow>
     logs S s0 (snd (resolvePrecoVenda s ext))"
  by (simp add: resolvePrecoVenda_def case_prod_beta upsertPrecoVenda_logs split: sum.splits)

lemma resolvePrecoAluguel_view [simp]:
  "T_precos_aluguel \<in> W \<Longrightarrow> view W (snd (resolvePrecoAluguel s ext)) = view W s"
  by (simp add: resolvePrecoAluguel_def case_prod_beta split: sum.splits)

lemma resolvePrecoAluguel_faults [simp]:
  "faults s = [] \<Longrightarrow> faults (snd (resolvePrecoAluguel s ext)) = []"
  by (simp add: resolvePrecoAluguel_def case_prod_beta split: sum.splits)

lemma resolvePrecoAluguel_logs:
  "logs S s0 s \<Longrightarrow> (\<And>k. (T_precos_aluguel, k) \<in> S) \<Longrightarrow>
     logs S s0 (snd (resolvePrecoAluguel s ext))"
  by (simp add: resolvePrecoAluguel_def case_prod_beta upsertPrecoAluguel_logs split: sum.splits)

lemma resolveCorretorPrincipal_view [simp]:
  "T_organizacoes \<in> W \<Longrightarrow> T_corretores_principais \<in> W \<Longrightarrow>
     view W (snd (resolveCorretorPrincipal s ext)) = view W s"
  by (simp add: resolveCorretorPrincipal_def case_prod_beta split: sum.splits)

lemma resolveCorretorPrincipal_faults [simp]:
  "faults s = [] \<Longrightarrow> faults (snd (resolveCorretorPrincipal s ext)) = []"
  by (simp add: resolveCorretorPrincipal_def case_prod_beta split: sum.splits)

lemma resolveCorretorPrincipal_logs:
  "logs S s0 s \<Longrightarrow> (\<And>k. (T_organizacoes, k) \<in> S) \<Longrightarrow>
     (\<And>k. (T_corretores_principais, k) \<in> S) \<Longrightarrow>
     logs S s0 (snd (resolveCorretorPrincipal s ext))"
  by (simp add: resolveCorretorPrincipal_def case_prod_beta upsertCorretorPrincipal_logs
      split: sum.splits)

text \<open>The state after the four blocks, as a chain.\<close>

lemma upsertRelationships_snd:
  "snd (upsertRelationships s ext) =
     snd (resolveCorretorPrincipal
            (snd (resolvePrecoAluguel
                    (snd (resolvePrecoVenda (snd (resolveEmpreendimento s ext)) ext)) ext)) ext)"
  by (simp add: upsertRelationships_def case_prod_beta)

lemma upsertRelationships_view [simp]:
  "T_empreendimentos \<in> W \<Longrightarrow> T_precos_venda \<in> W \<Longrightarrow> T_precos_aluguel \<in> W \<Longrightarrow>
   T_organizacoes \<in> W \<Longrightarrow> T_corretores_principais \<in> W \<Longrightarrow>
     view W (snd (upsertRelationships s ext)) = view W s"
  by (simp add: upsertRelationships_snd)

lemma upsertRelationships_faults [simp]:
  "faults s = [] \<Longrightarrow> faults (snd (upsertRelationships s ext)) = []"
  by (simp add: upsertRelationships_snd)

lemma upsertRelationships_imoveis [simp]:
  "imoveis (snd (upsertRelationships s ext)) = imoveis s"
  "imoveis_seq (snd (upsertRelationships s ext)) = imoveis_seq s"
  using view_imoveisD [of "{T_empreendimentos, T_precos_venda, T_precos_aluguel,
      T_organizacoes, T_corretores_principais}" "snd (upsertRelationships s ext)" s]
  by simp_all

lemma update_branch_view [simp]:
  "T_imoveis \<in> W \<Longrightarrow> T_enderecos \<in> W \<Longrightarrow>
     view W (snd (update_branch s i ext ids)) = view W s"
  by (simp add: update_branch_def case_prod_beta split: sum.splits)

lemma update_branch_faults [simp]:
  "faults s = [] \<Longrightarrow> faults (snd (update_branch s i ext ids)) = []"
  by (simp add: update_branch_def case_prod_beta split: sum.splits)

lemma create_branch_view [simp]:
  "T_imoveis \<in> W \<Longrightarrow> T_enderecos \<in> W \<Longrightarrow>
     view W (snd (create_branch s ext ids)) = view W s"
  by (simp add: create_branch_def case_prod_beta split: sum.splits)

lemma create_branch_faults [simp]:
  "faults s = [] \<Longrightarrow> faults (snd (create_branch s ext ids)) = []"
  by (simp add: create_branch_def case_prod_beta split: sum.splits)

lemma upsertImovelAndRelationships_faults [simp]:
  "faults s = [] \<Longrightarrow> faults (snd (upsertImovelAndRelationships s i ext u)) = []"
  by (simp add: upsertImovelAndRelationships_def case_prod_beta split: sum.splits)

lemma import_one_faults [simp]:
  "faults (fst st) = [] \<Longrightarrow> faults (fst (import_one api x st)) = []"
  by (simp add: import_one_def case_prod_beta Let_def split: sum.splits)

lemma import_loop_faults [simp]:
  "faults (fst st) = [] \<Longrightarrow> faults (fst (import_loop api xs st)) = []"
  by (induction xs arbitrary: st) simp_all


section \<open>Claim C9: completion is signalled as an error\<close>

lemma decimal_0_1: "decimal 0 = ''0''" "decimal (Suc 0) = ''1''"
  by (simp_all add: decimal.simps digit_def)

lemma run_900:
  "snd (import_loop api_900 [\<lparr>xi_ID = 900, xi_Codigo = ''AP900''\<rparr>] (empty_db, 0, 0, 0)) = (1, 0, 0)"
  by code_simp

text \<open>
  Claim C9. \<^verbatim>\<open>ImportPublishedProperties\<close> never returns nil. On every run that gets
  past the list fetch (the fetch succeeds and the list is not empty) the error returned
  is the completion message, which carries the three counters of the loop: created,
  updated and failed. This holds for every provider and every database, also when every
  item succeeds.
\<close>

theorem C9_completion_is_an_error:
  "fst (ImportPublishedProperties api s) \<noteq> None \<and>
   (\<forall>properties. published api = Inr properties \<and> properties \<noteq> [] \<longrightarrow>
      (\<exists>created failed updated.
         snd (import_loop api properties (s, 0, 0, 0)) = (created, failed, updated) \<and>
         fst (ImportPublishedProperties api s) =
           Some (''import completed: '' @ decimal created @ '' created, '' @ decimal updated
                 @ '' updated, '' @ decimal failed @ '' failed'')))"
proof (intro conjI allI impI)
  show "fst (ImportPublishedProperties api s) \<noteq> None"
    by (simp add: ImportPublishedProperties_def case_prod_beta split: sum.splits)
next
  fix properties
  assume a: "published api = Inr properties \<and> properties \<noteq> []"
  obtain created failed updated
    where c: "snd (import_loop api properties (s, 0, 0, 0)) = (created, failed, updated)"
    by (metis prod_cases3)
  have "fst (ImportPublishedProperties api s) =
          Some (completion_message (snd (import_loop api properties (s, 0, 0, 0))))"
    using a by (simp add: ImportPublishedProperties_def fetchPublishedList_def case_prod_beta)
  then show "\<exists>created failed updated.
         snd (import_loop api properties (s, 0, 0, 0)) = (created, failed, updated) \<and>
         fst (ImportPublishedProperties api s) =
           Some (''import completed: '' @ decimal created @ '' created, '' @ decimal updated
                 @ '' updated, '' @ decimal failed @ '' failed'')"
    using c by (simp add: completion_message_def)
qed


text \<open>The scenario property imported into an empty database: all succeed, and the run
  still ends with an error value.\<close>

theorem C9_witness:
  "published api_900 = Inr [\<lparr>xi_ID = 900, xi_Codigo = ''AP900''\<rparr>] \<and>
   fst (ImportPublishedProperties api_900 empty_db) =
     Some ''import completed: 1 created, 0 updated, 0 failed''"
proof -
  have p: "published api_900 = Inr [\<lparr>xi_ID = 900, xi_Codigo = ''AP900''\<rparr>]"
    by (simp add: api_900_def)
  from C9_completion_is_an_error [of api_900 empty_db] p
  obtain created failed updated where
    c: "snd (import_loop api_900 [\<lparr>xi_ID = 900, xi_Codigo = ''AP900''\<rparr>] (empty_db, 0, 0, 0))
       = (created, failed, updated)"
    and m: "fst (ImportPublishedProperties api_900 empty_db) =
           Some (''import completed: '' @ decimal created @ '' created, '' @ decimal updated
                 @ '' updated, '' @ decimal failed @ '' failed'')"
    by blast
  from c have "created = 1 \<and> failed = 0 \<and> updated = 0"
    unfolding run_900 by simp
  with m p show ?thesis
    by (simp add: decimal_0_1)
qed


end
